theory Spec2Isabelle
  imports Complex_Main "HOL-Library.AList"
begin

section \<open>Strings and numbers of the source language\<close>

text \<open>
  A TypeScript string is a sequence of UTF-16 code units: \<open>length\<close> counts them,
  \<open>charCodeAt\<close> reads one, and \<open>===\<close> compares them one by one. The model keeps that
  view: a string is the list of its code units. Literals of the source are written
  \<open>js ''...''\<close>. A \<open>number\<close> that the code only counts with (lengths, scores, point
  deductions) is an integer; a \<open>number\<close> that arrives from outside (amounts, timestamps,
  the balance) or is a quotient (percentages) is a real.
\<close>

type_synonym jsstring = "nat list"

definition js :: "string \<Rightarrow> jsstring" where
  "js s = map of_char s"

text \<open>Template literals print a count in decimal.\<close>

definition digit :: "nat \<Rightarrow> nat" where
  "digit d = 48 + d"

function decimal :: "nat \<Rightarrow> jsstring" where
  "decimal n = (if n < 10 then [digit n] else decimal (n div 10) @ [digit (n mod 10)])"
  by pat_completeness auto
termination
  by (relation "measure id") auto

declare decimal.simps [simp del]

text \<open>
  \<open>x.toFixed(1)\<close> for a non-negative \<open>x\<close>: the integer \<open>n\<close> with \<open>n / 10\<close> closest to
  \<open>x\<close>, the larger one on a tie, printed with one fractional digit.
\<close>

definition toFixed1 :: "real \<Rightarrow> jsstring" where
  "toFixed1 x =
     (let n = nat \<lfloor>x * 10 + 1 / 2\<rfloor>
      in decimal (n div 10) @ js ''.'' @ decimal (n mod 10))"

text \<open>
  Truthiness of a string: the empty string is falsy. The transaction types declare every
  address field as a string, so a missing address is the empty string here.
\<close>

definition truthy :: "jsstring \<Rightarrow> bool" where
  "truthy s = (s \<noteq> [])"

subsection \<open>Character classes\<close>

definition in_range :: "char \<Rightarrow> char \<Rightarrow> nat \<Rightarrow> bool" where
  "in_range lo hi c = (of_char lo \<le> c \<and> c \<le> of_char hi)"

text \<open>The class \<open>\s\<close>, which is also what \<open>trim\<close> removes: white space and line terminators.\<close>

definition isSpace :: "nat \<Rightarrow> bool" where
  "isSpace c =
     (c = 0x09 \<or> c = 0x0A \<or> c = 0x0B \<or> c = 0x0C \<or> c = 0x0D \<or> c = 0x20 \<or> c = 0xA0 \<or>
      c = 0x1680 \<or> (0x2000 \<le> c \<and> c \<le> 0x200A) \<or> c = 0x2028 \<or> c = 0x2029 \<or>
      c = 0x202F \<or> c = 0x205F \<or> c = 0x3000 \<or> c = 0xFEFF)"

text \<open>The class \<open>.\<close>: every code unit but the four line terminators.\<close>

definition isDot :: "nat \<Rightarrow> bool" where
  "isDot c = (c \<noteq> 0x0A \<and> c \<noteq> 0x0D \<and> c \<noteq> 0x2028 \<and> c \<noteq> 0x2029)"

text \<open>The class \<open>[a-zA-Z0-9_-]\<close> of the domain pattern.\<close>

definition isDomainChar :: "nat \<Rightarrow> bool" where
  "isDomainChar c =
     (in_range CHR ''a'' CHR ''z'' c \<or> in_range CHR ''A'' CHR ''Z'' c \<or>
      in_range CHR ''0'' CHR ''9'' c \<or> c = of_char CHR ''_'' \<or> c = of_char CHR ''-'')"

text \<open>The class \<open>[1-9A-HJ-NP-Za-km-z]\<close> of the address pattern.\<close>

definition isBase58 :: "nat \<Rightarrow> bool" where
  "isBase58 c =
     (in_range CHR ''1'' CHR ''9'' c \<or> in_range CHR ''A'' CHR ''H'' c \<or>
      in_range CHR ''J'' CHR ''N'' c \<or> in_range CHR ''P'' CHR ''Z'' c \<or>
      in_range CHR ''a'' CHR ''k'' c \<or> in_range CHR ''m'' CHR ''z'' c)"

subsection \<open>String methods\<close>

text \<open>
  \<open>toLowerCase\<close>. The pipeline only ever searches the lower-cased text for ASCII words, so
  what matters is which code units turn into ASCII ones: the letters \<open>A\<close> to \<open>Z\<close>, the
  capital I with a dot above (U+0130, which becomes \<open>i\<close> followed by U+0307) and the
  Kelvin sign (U+212A, which becomes \<open>k\<close>). The capital letters of Latin-1 move to their
  small forms; a code unit beyond that is kept, its lower-case form being no ASCII text.
\<close>

definition lowerUnit :: "nat \<Rightarrow> jsstring" where
  "lowerUnit c =
     (if in_range CHR ''A'' CHR ''Z'' c then [c + 32]
      else if 0xC0 \<le> c \<and> c \<le> 0xDE \<and> c \<noteq> 0xD7 then [c + 32]
      else if c = 0x130 then [0x69, 0x307]
      else if c = 0x212A then [0x6B]
      else [c])"

definition toLowerCase :: "jsstring \<Rightarrow> jsstring" where
  "toLowerCase s = concat (map lowerUnit s)"

definition startsWith :: "jsstring \<Rightarrow> jsstring \<Rightarrow> bool" where
  "startsWith s p = (take (length p) s = p)"

fun includesStr :: "jsstring \<Rightarrow> jsstring \<Rightarrow> bool" where
  "includesStr [] p = (p = [])"
| "includesStr (c # s) p = (startsWith (c # s) p \<or> includesStr s p)"

definition trim :: "jsstring \<Rightarrow> jsstring" where
  "trim s = rev (dropWhile isSpace (rev (dropWhile isSpace s)))"

section \<open>Data model\<close>

text \<open>
  The transaction types of the indexing service, with the fields the analysis reads.
  A transaction's \<open>type\<close>, \<open>source\<close> and \<open>fee\<close>, the balance changes of an account entry,
  the swap event and the remaining fields of an NFT event are never read by the
  pipeline and are left out. An absent optional field is \<open>None\<close>.
\<close>

record NativeTransfer =
  nt_fromUserAccount :: jsstring
  nt_toUserAccount :: jsstring
  nt_amount :: real

record TokenTransfer =
  tt_mint :: jsstring
  tt_tokenAmount :: real
  tt_fromUserAccount :: jsstring
  tt_toUserAccount :: jsstring
  tt_tokenStandard :: jsstring

record AccountData =
  ad_account :: jsstring

record NftItem =
  ni_mint :: jsstring

record NftEvent =
  ne_buyer :: "jsstring option"
  ne_nfts :: "NftItem list option"

record TransactionEvent =
  ev_nft :: "NftEvent option"

record ParsedTransaction =
  tx_signature :: jsstring
  tx_timestamp :: real
  tx_description :: jsstring
  tx_feePayer :: jsstring
  tx_accountData :: "AccountData list"
  tx_tokenTransfers :: "TokenTransfer list"
  tx_nativeTransfers :: "NativeTransfer list"
  tx_events :: TransactionEvent

subsection \<open>Constants\<close>

record CEXEntry =
  ce_address :: jsstring
  ce_name :: jsstring

definition KNOWN_CEX :: "CEXEntry list" where
  "KNOWN_CEX =
    [\<lparr>ce_address = js ''5tzFkiKscXHK5ZXCGbXZxdw7gTjjD1mBwuoFbhUvuAi9'', ce_name = js ''Binance''\<rparr>,
     \<lparr>ce_address = js ''9WzDXwBbmkg8ZTbNMqUxvQRAyrZzDsGYdLVL9zYtAWWM'', ce_name = js ''Binance''\<rparr>,
     \<lparr>ce_address = js ''2ojv9BAiHUrvsm9gxDe7fJSzbNZSJcxZvf8dqmWGHG8S'', ce_name = js ''Binance''\<rparr>,
     \<lparr>ce_address = js ''H8sMJSCQxfKiFTCfDR3DUMLPwcRbM61LGFJ8N4dK3WjS'', ce_name = js ''Coinbase''\<rparr>,
     \<lparr>ce_address = js ''GJRs4FwHtemZ5ZE9x3FNvJ8TMwitKTh21yxdRPqn7npE'', ce_name = js ''Coinbase''\<rparr>,
     \<lparr>ce_address = js ''2AQdpHJ2JpcEgPiATUXjQxA8QmafFegfQwSLWSprPicm'', ce_name = js ''Coinbase''\<rparr>,
     \<lparr>ce_address = js ''FWznbcNXWQuHTawe9RxvQ2LdCENssh12dsznf4RiouN5'', ce_name = js ''Kraken''\<rparr>,
     \<lparr>ce_address = js ''7hUdUTkJLwdcmt3jSEeqx4ep91sm1XwBxMDaJae6bD5D'', ce_name = js ''Kraken''\<rparr>,
     \<lparr>ce_address = js ''CuieVDEDtLo7FypA9SbLM9saXFdb1dsshEkyErMqkRQq'', ce_name = js ''FTX (defunct)''\<rparr>,
     \<lparr>ce_address = js ''5VCwKtCXgCJ6kit5FybXjvriW3xELsFDhYrPSqtJNmcD'', ce_name = js ''OKX''\<rparr>,
     \<lparr>ce_address = js ''BmFdpraQhkiDQE6SnfG5omcA1VwzqfXrwtNYBwWTymy6'', ce_name = js ''KuCoin''\<rparr>]"

datatype RiskLevel = LOW | MEDIUM | HIGH | CRITICAL

record ScoreThresholds =
  st_CRITICAL :: int
  st_HIGH :: int
  st_MEDIUM :: int
  st_LOW :: int

definition SCORE_THRESHOLDS :: ScoreThresholds where
  "SCORE_THRESHOLDS = \<lparr>st_CRITICAL = 25, st_HIGH = 50, st_MEDIUM = 75, st_LOW = 100\<rparr>"

record PointDeductions =
  pd_CEX_DEPOSIT :: int
  pd_CEX_WITHDRAWAL :: int
  pd_CLUSTER_DETECTED :: int
  pd_NFT_POAP_EXPOSED :: int
  pd_SOL_DOMAIN_EXPOSED :: int
  pd_SANCTIONED_INTERACTION :: int
  pd_HIGH_FREQUENCY_SAME_ADDR :: int

definition POINT_DEDUCTIONS :: PointDeductions where
  "POINT_DEDUCTIONS =
     \<lparr>pd_CEX_DEPOSIT = 15, pd_CEX_WITHDRAWAL = 10, pd_CLUSTER_DETECTED = 20,
      pd_NFT_POAP_EXPOSED = 5, pd_SOL_DOMAIN_EXPOSED = 10, pd_SANCTIONED_INTERACTION = 50,
      pd_HIGH_FREQUENCY_SAME_ADDR = 8\<rparr>"

record RecommendedTool =
  rt_name :: jsstring
  rt_description :: jsstring
  rt_url :: jsstring
  rt_useCase :: jsstring

definition RECOMMENDED_TOOLS :: "RecommendedTool list" where
  "RECOMMENDED_TOOLS =
    [\<lparr>rt_name = js ''Privacy Cash'',
      rt_description = js ''Break the on-chain link between your wallets using Privacy Cash mixer'',
      rt_url = js ''https://privacycash.io'', rt_useCase = js ''CEX_DEPOSIT''\<rparr>,
     \<lparr>rt_name = js ''Radr Labs'',
      rt_description = js ''Advanced wallet obfuscation and privacy-preserving transactions'',
      rt_url = js ''https://radrlabs.io'', rt_useCase = js ''CLUSTER_DETECTED''\<rparr>,
     \<lparr>rt_name = js ''Range Protocol'',
      rt_description = js ''Compliance-friendly privacy layer with regulatory clarity'',
      rt_url = js ''https://range.org'', rt_useCase = js ''SANCTIONED_INTERACTION''\<rparr>,
     \<lparr>rt_name = js ''Elusiv'',
      rt_description = js ''Zero-knowledge private transactions on Solana'',
      rt_url = js ''https://elusiv.io'', rt_useCase = js ''GENERAL_PRIVACY''\<rparr>,
     \<lparr>rt_name = js ''Light Protocol'',
      rt_description = js ''ZK compression for private state on Solana'',
      rt_url = js ''https://lightprotocol.com'', rt_useCase = js ''GENERAL_PRIVACY''\<rparr>]"

record AnalysisConfig =
  ac_MAX_TRANSACTIONS_TO_ANALYZE :: nat
  ac_CLUSTER_THRESHOLD_PERCENTAGE :: real
  ac_MIN_TRANSACTIONS_FOR_PATTERN :: nat

definition ANALYSIS_CONFIG :: AnalysisConfig where
  "ANALYSIS_CONFIG =
     \<lparr>ac_MAX_TRANSACTIONS_TO_ANALYZE = 100, ac_CLUSTER_THRESHOLD_PERCENTAGE = 50,
      ac_MIN_TRANSACTIONS_FOR_PATTERN = 5\<rparr>"

section \<open>The exchange-interaction detector\<close>

datatype Direction = Deposit | Withdrawal

record CEXTransaction =
  cx_signature :: jsstring
  cx_timestamp :: real
  cx_exchangeName :: jsstring
  cx_exchangeAddress :: jsstring
  cx_direction :: Direction
  cx_amount :: "real option"

record CEXDetectionResult =
  cex_detected :: bool
  cex_deposits :: "CEXTransaction list"
  cex_withdrawals :: "CEXTransaction list"
  cex_totalCEXTransactions :: nat
  cex_exchangesInvolved :: "jsstring list"
  cex_riskContribution :: int

definition findCEXAddress :: "jsstring \<Rightarrow> CEXEntry option" where
  "findCEXAddress address =
     (if \<not> truthy address then None
      else find (\<lambda>cex. ce_address cex = address) KNOWN_CEX)"

text \<open>
  The three accumulators of the scan. \<open>exchangesSet\<close> is a \<open>Set\<close>, which keeps its
  elements in the order of their first insertion; \<open>setAdd\<close> is its \<open>add\<close>.
\<close>

record CEXScan =
  sc_deposits :: "CEXTransaction list"
  sc_withdrawals :: "CEXTransaction list"
  sc_exchangesSet :: "jsstring list"

definition setAdd :: "'a list \<Rightarrow> 'a \<Rightarrow> 'a list" where
  "setAdd xs x = (if x \<in> set xs then xs else xs @ [x])"

definition pushDeposit :: "CEXScan \<Rightarrow> CEXTransaction \<Rightarrow> CEXScan" where
  "pushDeposit st d =
     st\<lparr>sc_deposits := sc_deposits st @ [d],
        sc_exchangesSet := setAdd (sc_exchangesSet st) (cx_exchangeName d)\<rparr>"

definition pushWithdrawal :: "CEXScan \<Rightarrow> CEXTransaction \<Rightarrow> CEXScan" where
  "pushWithdrawal st d =
     st\<lparr>sc_withdrawals := sc_withdrawals st @ [d],
        sc_exchangesSet := setAdd (sc_exchangesSet st) (cx_exchangeName d)\<rparr>"

definition cexRecord ::
  "ParsedTransaction \<Rightarrow> CEXEntry \<Rightarrow> Direction \<Rightarrow> real option \<Rightarrow> CEXTransaction" where
  "cexRecord tx cex dir amt =
     \<lparr>cx_signature = tx_signature tx, cx_timestamp = tx_timestamp tx,
      cx_exchangeName = ce_name cex, cx_exchangeAddress = ce_address cex,
      cx_direction = dir, cx_amount = amt\<rparr>"

text \<open>One transfer of the scan: the same two tests for a native and for a token transfer.\<close>

definition scanTransfer ::
  "jsstring \<Rightarrow> ParsedTransaction \<Rightarrow> jsstring \<Rightarrow> jsstring \<Rightarrow> real \<Rightarrow> CEXScan \<Rightarrow> CEXScan" where
  "scanTransfer walletAddress tx fromUserAccount toUserAccount amt st =
     (let st1 =
        (case findCEXAddress fromUserAccount of
           Some cexMatch \<Rightarrow>
             if toUserAccount = walletAddress
             then pushDeposit st (cexRecord tx cexMatch Deposit (Some amt))
             else st
         | None \<Rightarrow> st)
      in case findCEXAddress toUserAccount of
           Some cexMatchTo \<Rightarrow>
             if fromUserAccount = walletAddress
             then pushWithdrawal st1 (cexRecord tx cexMatchTo Withdrawal (Some amt))
             else st1
         | None \<Rightarrow> st1)"

definition scanNative :: "jsstring \<Rightarrow> ParsedTransaction \<Rightarrow> NativeTransfer \<Rightarrow> CEXScan \<Rightarrow> CEXScan" where
  "scanNative walletAddress tx transfer st =
     scanTransfer walletAddress tx (nt_fromUserAccount transfer) (nt_toUserAccount transfer)
       (nt_amount transfer / 1000000000) st"

definition scanToken :: "jsstring \<Rightarrow> ParsedTransaction \<Rightarrow> TokenTransfer \<Rightarrow> CEXScan \<Rightarrow> CEXScan" where
  "scanToken walletAddress tx transfer st =
     scanTransfer walletAddress tx (tt_fromUserAccount transfer) (tt_toUserAccount transfer)
       (tt_tokenAmount transfer) st"

definition scanFeePayer :: "jsstring \<Rightarrow> ParsedTransaction \<Rightarrow> CEXScan \<Rightarrow> CEXScan" where
  "scanFeePayer walletAddress tx st =
     (case findCEXAddress (tx_feePayer tx) of
        Some feePayerMatch \<Rightarrow>
          if tx_feePayer tx \<noteq> walletAddress
          then (let alreadyTracked =
                      list_ex (\<lambda>d. cx_signature d = tx_signature tx) (sc_deposits st)
                in if \<not> alreadyTracked
                   then pushDeposit st (cexRecord tx feePayerMatch Deposit None)
                   else st)
          else st
      | None \<Rightarrow> st)"

definition scanTransaction :: "jsstring \<Rightarrow> ParsedTransaction \<Rightarrow> CEXScan \<Rightarrow> CEXScan" where
  "scanTransaction walletAddress tx st =
     scanFeePayer walletAddress tx
       (fold (scanToken walletAddress tx) (tx_tokenTransfers tx)
          (fold (scanNative walletAddress tx) (tx_nativeTransfers tx) st))"

definition detectCEXTransactions :: "ParsedTransaction list \<Rightarrow> jsstring \<Rightarrow> CEXDetectionResult" where
  "detectCEXTransactions transactions walletAddress =
     (let st = fold (scanTransaction walletAddress) transactions
                 \<lparr>sc_deposits = [], sc_withdrawals = [], sc_exchangesSet = []\<rparr>;
          deposits = sc_deposits st;
          withdrawals = sc_withdrawals st;
          depositRisk = int (length deposits) * 15;
          withdrawalRisk = int (length withdrawals) * 10;
          riskContribution = min (depositRisk + withdrawalRisk) 50
      in \<lparr>cex_detected = (length deposits > 0 \<or> length withdrawals > 0),
          cex_deposits = deposits,
          cex_withdrawals = withdrawals,
          cex_totalCEXTransactions = length deposits + length withdrawals,
          cex_exchangesInvolved = sc_exchangesSet st,
          cex_riskContribution = riskContribution\<rparr>)"

definition generateCEXWarnings :: "CEXDetectionResult \<Rightarrow> jsstring list" where
  "generateCEXWarnings result =
     map (\<lambda>deposit. js ''Direct deposit from '' @ cx_exchangeName deposit @ js '' detected. '' @
                     js ''This links your CEX KYC identity to this wallet.'')
         (cex_deposits result) @
     map (\<lambda>withdrawal. js ''Withdrawal to '' @ cx_exchangeName withdrawal @ js '' detected. '' @
                        js ''Your wallet activity is now linked to your exchange account.'')
         (cex_withdrawals result)"

definition generateCEXActions :: "CEXDetectionResult \<Rightarrow> jsstring list" where
  "generateCEXActions result =
     (if length (cex_deposits result) > 0
      then [js ''Consider using Privacy Cash to create a clean wallet for future DeFi activities.'',
            js ''Use intermediate wallets between CEX and your main DeFi wallet.'']
      else []) @
     (if length (cex_withdrawals result) > 0
      then [js ''Before depositing to CEX, route through an intermediate wallet.'',
            js ''Consider using compliant privacy solutions like Elusiv for future transactions.'']
      else []) @
     (if length (cex_exchangesInvolved result) > 1
      then [js ''Multiple exchanges linked to this wallet - consider compartmentalizing with separate wallets.'']
      else [])"

section \<open>The clustering detector\<close>

datatype ClusterPattern =
  none | single_counterparty | small_cluster | wash_trading | funnel

record AddressFrequency =
  af_address :: jsstring
  af_count :: nat
  af_percentage :: real

record ClusteringResult =
  cl_detected :: bool
  cl_clusteringPercentage :: real
  cl_topAddresses :: "AddressFrequency list"
  cl_dominantAddress :: "jsstring option"
  cl_totalUniqueAddresses :: nat
  cl_totalTransactions :: nat
  cl_riskContribution :: int
  cl_pattern :: ClusterPattern

text \<open>
  A \<open>Map\<close> keeps its keys in the order of their first insertion, and \<open>set\<close> on a key
  that is present replaces the value where it stands: an association list with
  \<open>map_of\<close> for \<open>get\<close> and \<open>AList.update\<close> for \<open>set\<close>.
\<close>

record InteractionCount =
  ic_addressCounts :: "(jsstring \<times> nat) list"
  ic_totalInteractions :: nat

definition otherAddress :: "jsstring \<Rightarrow> jsstring \<Rightarrow> jsstring \<Rightarrow> jsstring" where
  "otherAddress walletAddress fromUserAccount toUserAccount =
     (if fromUserAccount = walletAddress then toUserAccount else fromUserAccount)"

definition getOrZero :: "(jsstring \<times> nat) list \<Rightarrow> jsstring \<Rightarrow> nat" where
  "getOrZero m k = (case map_of m k of Some c \<Rightarrow> c | None \<Rightarrow> 0)"

definition countTransfer :: "jsstring \<Rightarrow> jsstring \<Rightarrow> jsstring \<Rightarrow> InteractionCount \<Rightarrow> InteractionCount" where
  "countTransfer walletAddress fromUserAccount toUserAccount st =
     (let other = otherAddress walletAddress fromUserAccount toUserAccount
      in if truthy other \<and> other \<noteq> walletAddress
         then \<lparr>ic_addressCounts =
                 AList.update other (getOrZero (ic_addressCounts st) other + 1) (ic_addressCounts st),
               ic_totalInteractions = ic_totalInteractions st + 1\<rparr>
         else st)"

definition countTransaction :: "jsstring \<Rightarrow> ParsedTransaction \<Rightarrow> InteractionCount \<Rightarrow> InteractionCount" where
  "countTransaction walletAddress tx st =
     fold (\<lambda>transfer. countTransfer walletAddress (tt_fromUserAccount transfer) (tt_toUserAccount transfer))
       (tx_tokenTransfers tx)
       (fold (\<lambda>transfer. countTransfer walletAddress (nt_fromUserAccount transfer) (nt_toUserAccount transfer))
          (tx_nativeTransfers tx) st)"

definition countInteractions :: "ParsedTransaction list \<Rightarrow> jsstring \<Rightarrow> InteractionCount" where
  "countInteractions transactions walletAddress =
     fold (countTransaction walletAddress) transactions
       \<lparr>ic_addressCounts = [], ic_totalInteractions = 0\<rparr>"

definition detectPattern :: "AddressFrequency list \<Rightarrow> nat \<Rightarrow> ClusterPattern" where
  "detectPattern sortedAddresses totalInteractions =
     (case sortedAddresses of
        [] \<Rightarrow> none
      | firstAddress # _ \<Rightarrow>
          if af_percentage firstAddress \<ge> 50 then single_counterparty
          else if length sortedAddresses \<ge> 3 \<and>
                  foldl (\<lambda>sum a. sum + af_percentage a) 0 (take 3 sortedAddresses) \<ge> 80
          then small_cluster
          else if length sortedAddresses \<ge> 10 \<and>
                  foldl (\<lambda>sum a. sum + af_percentage a) 0 (take 5 sortedAddresses) \<ge> 70
          then funnel
          else none)"

text \<open>
  \<open>sort\<close> is stable, and the comparator \<open>b[1] - a[1]\<close> orders by falling count:
  \<open>sort_key\<close> on the negated count, which keeps entries of equal count in their order.
\<close>

definition sortAddresses :: "(jsstring \<times> nat) list \<Rightarrow> nat \<Rightarrow> AddressFrequency list" where
  "sortAddresses addressCounts totalInteractions =
     map (\<lambda>(address, count).
            \<lparr>af_address = address, af_count = count,
             af_percentage = (real count / real totalInteractions) * 100\<rparr>)
         (sort_key (\<lambda>(address, count). - int count) addressCounts)"

definition clusterRisk :: "bool \<Rightarrow> ClusterPattern \<Rightarrow> int" where
  "clusterRisk clusteringDetected pattern =
     (if clusteringDetected
      then (if pattern = single_counterparty then pd_CLUSTER_DETECTED POINT_DEDUCTIONS
            else if pattern = wash_trading then pd_CLUSTER_DETECTED POINT_DEDUCTIONS + 10
            else if pattern = small_cluster
              then \<lfloor>real_of_int (pd_CLUSTER_DETECTED POINT_DEDUCTIONS) * 0.7\<rfloor>
            else if pattern = funnel
              then \<lfloor>real_of_int (pd_CLUSTER_DETECTED POINT_DEDUCTIONS) * 0.5\<rfloor>
            else pd_HIGH_FREQUENCY_SAME_ADDR POINT_DEDUCTIONS)
      else 0)"

definition detectClustering :: "ParsedTransaction list \<Rightarrow> jsstring \<Rightarrow> ClusteringResult" where
  "detectClustering transactions walletAddress =
     (let st = countInteractions transactions walletAddress;
          addressCounts = ic_addressCounts st;
          totalInteractions = ic_totalInteractions st
      in if totalInteractions < ac_MIN_TRANSACTIONS_FOR_PATTERN ANALYSIS_CONFIG
         then \<lparr>cl_detected = False, cl_clusteringPercentage = 0, cl_topAddresses = [],
               cl_dominantAddress = None, cl_totalUniqueAddresses = length addressCounts,
               cl_totalTransactions = length transactions, cl_riskContribution = 0,
               cl_pattern = none\<rparr>
         else
           (let sortedAddresses = sortAddresses addressCounts totalInteractions;
                topAddresses = take 5 sortedAddresses;
                dominantAddress =
                  (case topAddresses of [] \<Rightarrow> None | firstAddress # _ \<Rightarrow> Some (af_address firstAddress));
                highestPercentage =
                  (case topAddresses of [] \<Rightarrow> 0 | firstAddress # _ \<Rightarrow> af_percentage firstAddress);
                pattern = detectPattern sortedAddresses totalInteractions;
                clusteringDetected =
                  (highestPercentage \<ge> ac_CLUSTER_THRESHOLD_PERCENTAGE ANALYSIS_CONFIG \<or>
                   pattern \<noteq> none);
                riskContribution = clusterRisk clusteringDetected pattern
            in \<lparr>cl_detected = clusteringDetected, cl_clusteringPercentage = highestPercentage,
                 cl_topAddresses = topAddresses, cl_dominantAddress = dominantAddress,
                 cl_totalUniqueAddresses = length addressCounts,
                 cl_totalTransactions = length transactions,
                 cl_riskContribution = riskContribution, cl_pattern = pattern\<rparr>))"

subsection \<open>Wash trading\<close>

record Timeline =
  tl_sent :: "real list"
  tl_received :: "real list"

record WashTradePair =
  wp_address :: jsstring
  wp_sendCount :: nat
  wp_receiveCount :: nat
  wp_alternations :: nat

record WashTradingResult =
  wt_detected :: bool
  wt_pairs :: "WashTradePair list"

datatype EventType = sent | received

definition getTimeline :: "(jsstring \<times> Timeline) list \<Rightarrow> jsstring \<Rightarrow> Timeline" where
  "getTimeline m k =
     (case map_of m k of Some timeline \<Rightarrow> timeline
      | None \<Rightarrow> \<lparr>tl_sent = [], tl_received = []\<rparr>)"

definition recordTransfer ::
  "jsstring \<Rightarrow> ParsedTransaction \<Rightarrow> NativeTransfer \<Rightarrow> (jsstring \<times> Timeline) list \<Rightarrow>
   (jsstring \<times> Timeline) list" where
  "recordTransfer walletAddress tx transfer addressTimelines =
     (let m1 =
        (if nt_fromUserAccount transfer = walletAddress \<and> truthy (nt_toUserAccount transfer)
         then (let timeline = getTimeline addressTimelines (nt_toUserAccount transfer)
               in AList.update (nt_toUserAccount transfer)
                    (timeline\<lparr>tl_sent := tl_sent timeline @ [tx_timestamp tx]\<rparr>) addressTimelines)
         else addressTimelines)
      in if nt_toUserAccount transfer = walletAddress \<and> truthy (nt_fromUserAccount transfer)
         then (let timeline = getTimeline m1 (nt_fromUserAccount transfer)
               in AList.update (nt_fromUserAccount transfer)
                    (timeline\<lparr>tl_received := tl_received timeline @ [tx_timestamp tx]\<rparr>) m1)
         else m1)"

definition buildTimelines :: "ParsedTransaction list \<Rightarrow> jsstring \<Rightarrow> (jsstring \<times> Timeline) list" where
  "buildTimelines transactions walletAddress =
     fold (\<lambda>tx. fold (recordTransfer walletAddress tx) (tx_nativeTransfers tx)) transactions []"

text \<open>
  The two lists, tagged and concatenated with the sent ones first, then sorted by time.
  The sort is stable: of two events at the same time, a sent one stays before a received
  one.
\<close>

definition allTimestamps :: "Timeline \<Rightarrow> (real \<times> EventType) list" where
  "allTimestamps timeline =
     sort_key fst (map (\<lambda>t. (t, sent)) (tl_sent timeline) @
                   map (\<lambda>t. (t, received)) (tl_received timeline))"

fun countAlternations :: "(real \<times> EventType) list \<Rightarrow> nat" where
  "countAlternations (previous # current # rest) =
     (if snd current \<noteq> snd previous then 1 else 0) + countAlternations (current # rest)"
| "countAlternations _ = 0"

definition washPair :: "jsstring \<times> Timeline \<Rightarrow> WashTradePair list" where
  "washPair entry =
     (case entry of (address, timeline) \<Rightarrow>
        if length (tl_sent timeline) \<ge> 2 \<and> length (tl_received timeline) \<ge> 2
        then (let alternations = countAlternations (allTimestamps timeline)
              in if alternations \<ge> 3
                 then [\<lparr>wp_address = address, wp_sendCount = length (tl_sent timeline),
                        wp_receiveCount = length (tl_received timeline),
                        wp_alternations = alternations\<rparr>]
                 else [])
        else [])"

definition detectWashTrading :: "ParsedTransaction list \<Rightarrow> jsstring \<Rightarrow> WashTradingResult" where
  "detectWashTrading transactions walletAddress =
     (let pairs = concat (map washPair (buildTimelines transactions walletAddress))
      in \<lparr>wt_detected = (length pairs > 0), wt_pairs = pairs\<rparr>)"

definition generateClusteringWarnings :: "ClusteringResult \<Rightarrow> jsstring list" where
  "generateClusteringWarnings result =
     (if \<not> cl_detected result then []
      else (case cl_pattern result of
              single_counterparty \<Rightarrow>
                [toFixed1 (cl_clusteringPercentage result) @
                 js ''% of transactions are with a single address. '' @
                 js ''This creates a clear link between your wallets.'']
            | small_cluster \<Rightarrow>
                [js ''Your transactions are concentrated among just '' @
                 decimal (length (cl_topAddresses result)) @ js '' addresses. '' @
                 js ''This clustering pattern can be used to link your wallets.'']
            | wash_trading \<Rightarrow>
                [js ''Suspicious back-and-forth transaction pattern detected. '' @
                 js ''This behavior is easily identifiable on-chain.'']
            | funnel \<Rightarrow>
                [js ''Funnel pattern detected: many sources funneling to few destinations. '' @
                 js ''This pattern suggests wallet consolidation.'']
            | none \<Rightarrow> []))"

definition generateClusteringActions :: "ClusteringResult \<Rightarrow> jsstring list" where
  "generateClusteringActions result =
     (if \<not> cl_detected result then []
      else [js ''Use Radr Labs to break wallet clustering patterns and obfuscate your transaction graph.''] @
           (if cl_pattern result = single_counterparty
            then [js ''Diversify your transaction patterns - use multiple intermediate wallets.'']
            else []) @
           (if cl_pattern result = wash_trading
            then [js ''Avoid repetitive back-and-forth transactions with the same address.'']
            else []) @
           [js ''Consider using Elusiv for private transactions that don't create linkable patterns.''])"

section \<open>Regular expressions\<close>

text \<open>
  The patterns of the source are sequences of literals, repetitions of a character
  class, one capture group, an alternation and the end anchor. A pattern is matched by
  backtracking, as the language defines it: the alternatives of a choice are tried from
  the left, a greedy repetition tries the longest run first and a lazy one the shortest,
  and the search takes the first start position that matches. With the flag \<open>i\<close>, a
  letter of the pattern matches both of its cases; the patterns hold ASCII letters only,
  and no code unit beyond ASCII is canonicalised to an ASCII letter.
\<close>

datatype RxAtom =
  Lit jsstring
| Rep "nat \<Rightarrow> bool" nat bool
| Alt "RxAtom list" "RxAtom list"
| GroupOpen
| GroupClose
| EndAnchor

fun atomSize :: "RxAtom \<Rightarrow> nat" where
  "atomSize (Alt a b) = Suc (sum_list (map atomSize a) + sum_list (map atomSize b))"
| "atomSize _ = 1"

definition upperAscii :: "nat \<Rightarrow> nat" where
  "upperAscii c = (if in_range CHR ''a'' CHR ''z'' c then c - 32 else c)"

definition sameText :: "bool \<Rightarrow> jsstring \<Rightarrow> jsstring \<Rightarrow> bool" where
  "sameText ignoreCase a b =
     (if ignoreCase then map upperAscii a = map upperAscii b else a = b)"

text \<open>
  The capture state: the text of the group while it is open, and its text once closed.
\<close>

type_synonym capture = "jsstring option \<times> jsstring option"

definition consume :: "jsstring \<Rightarrow> capture \<Rightarrow> capture" where
  "consume t cap = (case fst cap of Some g \<Rightarrow> (Some (g @ t), snd cap) | None \<Rightarrow> cap)"

fun firstSome :: "'a option list \<Rightarrow> 'a option" where
  "firstSome [] = None"
| "firstSome (Some x # _) = Some x"
| "firstSome (None # rest) = firstSome rest"

function matchAtoms :: "bool \<Rightarrow> RxAtom list \<Rightarrow> jsstring \<Rightarrow> capture \<Rightarrow> jsstring option" where
  "matchAtoms ic [] s cap = Some (case snd cap of Some g \<Rightarrow> g | None \<Rightarrow> [])"
| "matchAtoms ic (Lit l # r) s cap =
     (if length l \<le> length s \<and> sameText ic (take (length l) s) l
      then matchAtoms ic r (drop (length l) s) (consume (take (length l) s) cap)
      else None)"
| "matchAtoms ic (Rep cls least greedy # r) s cap =
     (let longest = length (takeWhile cls s);
          counts = (if greedy then rev [least..<Suc longest] else [least..<Suc longest])
      in firstSome (map (\<lambda>k. matchAtoms ic r (drop k s) (consume (take k s) cap)) counts))"
| "matchAtoms ic (Alt a b # r) s cap =
     (case matchAtoms ic (a @ r) s cap of
        Some g \<Rightarrow> Some g
      | None \<Rightarrow> matchAtoms ic (b @ r) s cap)"
| "matchAtoms ic (GroupOpen # r) s cap = matchAtoms ic r s (Some [], snd cap)"
| "matchAtoms ic (GroupClose # r) s cap = matchAtoms ic r s (None, fst cap)"
| "matchAtoms ic (EndAnchor # r) s cap = (if s = [] then matchAtoms ic r s cap else None)"
  by pat_completeness auto
termination
  by (relation "measure (\<lambda>(ic, re, s, cap). sum_list (map atomSize re))") auto

text \<open>\<open>s.match(re)\<close> for a pattern without the flag \<open>g\<close>: the first group of the first match.\<close>

fun regexMatch :: "bool \<Rightarrow> RxAtom list \<Rightarrow> jsstring \<Rightarrow> jsstring option" where
  "regexMatch ic re [] = matchAtoms ic re [] (None, None)"
| "regexMatch ic re (c # s) =
     (case matchAtoms ic re (c # s) (None, None) of
        Some g \<Rightarrow> Some g
      | None \<Rightarrow> regexMatch ic re s)"

section \<open>The identity-asset detector\<close>

datatype AssetType = nft | poap | badge | domain

datatype ExposureLevel = exposure_none | exposure_low | exposure_medium | exposure_high

record NFTAsset =
  na_mint :: jsstring
  na_type :: AssetType
  na_name :: "jsstring option"
  na_collection :: "jsstring option"
  na_receivedTimestamp :: "real option"

record AssetsDetectionResult =
  as_detected :: bool
  as_nftsDetected :: "NFTAsset list"
  as_solDomainsDetected :: "jsstring list"
  as_poapsDetected :: "NFTAsset list"
  as_identityExposureLevel :: ExposureLevel
  as_riskContribution :: int

definition POAP_INDICATORS :: "jsstring list" where
  "POAP_INDICATORS =
     [js ''poap'', js ''proof of attendance'', js ''event'', js ''badge'', js ''attendance'',
      js ''participated'', js ''hackathon'', js ''conference'', js ''meetup'']"

definition SNS_PROGRAM_ID :: jsstring where
  "SNS_PROGRAM_ID = js ''namesLPneVptA9Z5rqUDD9tMTWEJwofgaYwp8cawRkX''"

definition BONFIDA_PROGRAM_ID :: jsstring where
  "BONFIDA_PROGRAM_ID = js ''jCebN34bUfdeUYJT13J1yG16XWQpt5PDx6Mse9GUqhR''"

definition isPOAPorBadge :: "jsstring \<Rightarrow> bool" where
  "isPOAPorBadge description =
     (let lowerDesc = toLowerCase description
      in list_ex (\<lambda>indicator. includesStr lowerDesc indicator) POAP_INDICATORS)"

definition isSOLDomainTransaction :: "ParsedTransaction \<Rightarrow> bool" where
  "isSOLDomainTransaction tx =
     (let description = toLowerCase (tx_description tx)
      in if includesStr description (js ''.sol'') \<or> includesStr description (js ''domain'') \<or>
            includesStr description (js ''name service'')
         then True
         else list_ex (\<lambda>account. ad_account account = SNS_PROGRAM_ID \<or>
                                   ad_account account = BONFIDA_PROGRAM_ID)
                (tx_accountData tx))"

text \<open>The pattern \<open>/([a-zA-Z0-9_-]+\.sol)/\<close>.\<close>

definition domainPattern :: "RxAtom list" where
  "domainPattern = [GroupOpen, Rep isDomainChar 1 True, Lit (js ''.sol''), GroupClose]"

definition extractDomainName :: "ParsedTransaction \<Rightarrow> jsstring option" where
  "extractDomainName tx =
     (case regexMatch False domainPattern (tx_description tx) of
        Some g \<Rightarrow> if truthy g then Some g else None
      | None \<Rightarrow> None)"

text \<open>
  The patterns \<open>/received\s+(.+?)(?:\s+from|\s*$)/i\<close>, \<open>/minted\s+(.+?)(?:\s+from|\s*$)/i\<close>
  and \<open>/bought\s+(.+?)(?:\s+for|\s*$)/i\<close>.
\<close>

definition namePattern :: "jsstring \<Rightarrow> jsstring \<Rightarrow> RxAtom list" where
  "namePattern verb preposition =
     [Lit verb, Rep isSpace 1 True, GroupOpen, Rep isDot 1 False, GroupClose,
      Alt [Rep isSpace 1 True, Lit preposition] [Rep isSpace 0 True, EndAnchor]]"

definition namePatterns :: "RxAtom list list" where
  "namePatterns =
     [namePattern (js ''received'') (js ''from''),
      namePattern (js ''minted'') (js ''from''),
      namePattern (js ''bought'') (js ''for'')]"

definition extractNFTName :: "jsstring \<Rightarrow> jsstring option" where
  "extractNFTName description =
     (if \<not> truthy description then None
      else firstSome
             (map (\<lambda>pattern.
                     case regexMatch True pattern description of
                       Some g \<Rightarrow> if truthy g then Some (trim g) else None
                     | None \<Rightarrow> None)
                  namePatterns))"

definition calculateExposureLevel :: "nat \<Rightarrow> nat \<Rightarrow> nat \<Rightarrow> ExposureLevel" where
  "calculateExposureLevel nftCount poapCount domainCount =
     (let totalScore = nftCount + (poapCount * 2) + (domainCount * 3)
      in if totalScore = 0 then exposure_none
         else if totalScore \<le> 2 then exposure_low
         else if totalScore \<le> 5 then exposure_medium
         else exposure_high)"

record AssetScan =
  ax_nftsDetected :: "NFTAsset list"
  ax_solDomainsDetected :: "jsstring list"
  ax_poapsDetected :: "NFTAsset list"

text \<open>The NFT-event pass: every mint of the event is pushed, to one list or the other.\<close>

definition scanNftItem :: "ParsedTransaction \<Rightarrow> NftItem \<Rightarrow> AssetScan \<Rightarrow> AssetScan" where
  "scanNftItem tx item st =
     (let isPOAP = isPOAPorBadge (tx_description tx)
      in if isPOAP
         then st\<lparr>ax_poapsDetected := ax_poapsDetected st @
                  [\<lparr>na_mint = ni_mint item, na_type = poap,
                    na_name = extractNFTName (tx_description tx), na_collection = None,
                    na_receivedTimestamp = Some (tx_timestamp tx)\<rparr>]\<rparr>
         else st\<lparr>ax_nftsDetected := ax_nftsDetected st @
                  [\<lparr>na_mint = ni_mint item, na_type = nft,
                    na_name = extractNFTName (tx_description tx), na_collection = None,
                    na_receivedTimestamp = Some (tx_timestamp tx)\<rparr>]\<rparr>)"

definition scanNftEvent :: "jsstring \<Rightarrow> ParsedTransaction \<Rightarrow> AssetScan \<Rightarrow> AssetScan" where
  "scanNftEvent walletAddress tx st =
     (case ev_nft (tx_events tx) of
        Some nftEvent \<Rightarrow>
          if ne_buyer nftEvent = Some walletAddress \<or>
             includesStr (toLowerCase (tx_description tx)) (js ''received'')
          then fold (scanNftItem tx) (case ne_nfts nftEvent of Some items \<Rightarrow> items | None \<Rightarrow> []) st
          else st
      | None \<Rightarrow> st)"

definition scanDomain :: "ParsedTransaction \<Rightarrow> AssetScan \<Rightarrow> AssetScan" where
  "scanDomain tx st =
     (if isSOLDomainTransaction tx
      then (case extractDomainName tx of
              Some domainName \<Rightarrow>
                if truthy domainName \<and> domainName \<notin> set (ax_solDomainsDetected st)
                then st\<lparr>ax_solDomainsDetected := ax_solDomainsDetected st @ [domainName]\<rparr>
                else st
            | None \<Rightarrow> st)
      else st)"

text \<open>The token-transfer pass: a mint is pushed unless its list already holds it.\<close>

definition scanTokenAsset ::
  "jsstring \<Rightarrow> ParsedTransaction \<Rightarrow> TokenTransfer \<Rightarrow> AssetScan \<Rightarrow> AssetScan" where
  "scanTokenAsset walletAddress tx transfer st =
     (if tt_toUserAccount transfer = walletAddress \<and> tt_tokenAmount transfer = 1 \<and>
         tt_tokenStandard transfer = js ''NonFungible''
      then (let isPOAP = isPOAPorBadge (tx_description tx)
            in if isPOAP
               then (case find (\<lambda>p. na_mint p = tt_mint transfer) (ax_poapsDetected st) of
                       None \<Rightarrow>
                         st\<lparr>ax_poapsDetected := ax_poapsDetected st @
                              [\<lparr>na_mint = tt_mint transfer, na_type = poap, na_name = None,
                                na_collection = None,
                                na_receivedTimestamp = Some (tx_timestamp tx)\<rparr>]\<rparr>
                     | Some existing \<Rightarrow> st)
               else (case find (\<lambda>n. na_mint n = tt_mint transfer) (ax_nftsDetected st) of
                       None \<Rightarrow>
                         st\<lparr>ax_nftsDetected := ax_nftsDetected st @
                              [\<lparr>na_mint = tt_mint transfer, na_type = nft, na_name = None,
                                na_collection = None,
                                na_receivedTimestamp = Some (tx_timestamp tx)\<rparr>]\<rparr>
                     | Some existing \<Rightarrow> st))
      else st)"

definition scanAssets :: "jsstring \<Rightarrow> ParsedTransaction \<Rightarrow> AssetScan \<Rightarrow> AssetScan" where
  "scanAssets walletAddress tx st =
     fold (scanTokenAsset walletAddress tx) (tx_tokenTransfers tx)
       (scanDomain tx (scanNftEvent walletAddress tx st))"

definition detectIdentityAssets :: "ParsedTransaction list \<Rightarrow> jsstring \<Rightarrow> AssetsDetectionResult" where
  "detectIdentityAssets transactions walletAddress =
     (let st = fold (scanAssets walletAddress) transactions
                 \<lparr>ax_nftsDetected = [], ax_solDomainsDetected = [], ax_poapsDetected = []\<rparr>;
          nftsDetected = ax_nftsDetected st;
          solDomainsDetected = ax_solDomainsDetected st;
          poapsDetected = ax_poapsDetected st;
          identityExposureLevel =
            calculateExposureLevel (length nftsDetected) (length poapsDetected)
              (length solDomainsDetected);
          riskContribution =
            min (int (length poapsDetected) * pd_NFT_POAP_EXPOSED POINT_DEDUCTIONS +
                 int (length solDomainsDetected) * pd_SOL_DOMAIN_EXPOSED POINT_DEDUCTIONS) 30;
          detected = (length nftsDetected > 0 \<or> length poapsDetected > 0 \<or>
                      length solDomainsDetected > 0)
      in \<lparr>as_detected = detected, as_nftsDetected = nftsDetected,
          as_solDomainsDetected = solDomainsDetected, as_poapsDetected = poapsDetected,
          as_identityExposureLevel = identityExposureLevel,
          as_riskContribution = riskContribution\<rparr>)"

definition generateAssetWarnings :: "AssetsDetectionResult \<Rightarrow> jsstring list" where
  "generateAssetWarnings result =
     (if length (as_poapsDetected result) > 0
      then [decimal (length (as_poapsDetected result)) @ js '' POAPs/event badges detected. '' @
            js ''These can reveal your real-world identity and event attendance.'']
      else []) @
     map (\<lambda>domain. js ''.sol domain \"'' @ domain @ js ''\" linked to this wallet. '' @
                    js ''Domains are public and can deanonymize your wallet.'')
         (as_solDomainsDetected result) @
     (if length (as_nftsDetected result) \<ge> 5
      then [decimal (length (as_nftsDetected result)) @ js '' NFTs detected. '' @
            js ''NFT ownership patterns can be used for fingerprinting.'']
      else [])"

definition generateAssetActions :: "AssetsDetectionResult \<Rightarrow> jsstring list" where
  "generateAssetActions result =
     (if length (as_poapsDetected result) > 0
      then [js ''Transfer POAPs and event badges to a separate public-facing wallet.'']
      else []) @
     (if length (as_solDomainsDetected result) > 0
      then [js ''Use a dedicated public wallet for .sol domains, separate from your DeFi wallet.'']
      else []) @
     (if as_identityExposureLevel result = exposure_high
      then [js ''Consider creating a new anonymous wallet for privacy-sensitive activities.'']
      else [])"

section \<open>The compliance screener\<close>

datatype RiskStatus = Clean | Sanctioned | Flagged | Unknown

record RangeDetails =
  rd_sanctionLists :: "jsstring list"
  rd_flags :: "jsstring list"
  rd_linkedToMixer :: bool
  rd_linkedToExploit :: bool

record RangeCheckResult =
  rc_address :: jsstring
  rc_status :: RiskStatus
  rc_riskScore :: int
  rc_checkedAt :: real
  rc_details :: RangeDetails

definition MOCK_SANCTIONED_ADDRESSES :: "jsstring list" where
  "MOCK_SANCTIONED_ADDRESSES =
     [js ''7eEqn3zGpQqq8fYjzqhfvwRRRVrBe3D3P4YfZ12GsAC1'',
      js ''CnK9VjRNgSJcq1UR89J8RmMNPSYKe2qkM4eRLmWMKPxn'',
      js ''Hp9SQbMoEhN9GwK1fY8xEyJBpDHZtCxXhpKA5KZjKekW'']"

definition MOCK_FLAGGED_ADDRESSES :: "jsstring list" where
  "MOCK_FLAGGED_ADDRESSES =
     [js ''E6tYH8TcVpzWS7YfcM9cKH8NbxRcPQjKJqvUTWKD9FqN'',
      js ''3JQRMn5sFjE7M3YPdCkL8KZKvN2qnhXTxmRYJWPsZKaB'']"

text \<open>
  The bitwise operators work on 32-bit signed integers: \<open>toInt32\<close> is the conversion
  they apply to an operand and give to their result. \<open>hash << 5\<close> is the product with
  32 brought back into the range, and \<open>hash & hash\<close> is \<open>hash\<close> brought back into the
  range. The subtraction and the addition between them are exact.
\<close>

definition toInt32 :: "int \<Rightarrow> int" where
  "toInt32 x = (x + 2 ^ 31) mod 2 ^ 32 - 2 ^ 31"

definition hashStep :: "int \<Rightarrow> nat \<Rightarrow> int" where
  "hashStep hash char = toInt32 (toInt32 (toInt32 hash * 2 ^ 5) - hash + int char)"

definition hashAddress :: "jsstring \<Rightarrow> int" where
  "hashAddress address = \<bar>foldl hashStep 0 address\<bar>"

text \<open>
  \<open>checkRisk\<close> reads the clock once, for the field \<open>checkedAt\<close> of its result: the
  reading is the first argument. The seed is never negative, so the remainder \<open>%\<close> is
  \<open>mod\<close>. Nothing in the body can throw on a string, so the handler of the source, which
  answers \<open>Unknown\<close> with score 50, is never entered.
\<close>

definition checkRisk :: "real \<Rightarrow> jsstring \<Rightarrow> RangeCheckResult" where
  "checkRisk now address =
     (if \<not> truthy address \<or> length address < 32 \<or> length address > 44
      then \<lparr>rc_address = address, rc_status = Unknown, rc_riskScore = 0, rc_checkedAt = now,
            rc_details = \<lparr>rd_sanctionLists = [], rd_flags = [js ''Invalid address format''],
                          rd_linkedToMixer = False, rd_linkedToExploit = False\<rparr>\<rparr>
      else if address \<in> set MOCK_SANCTIONED_ADDRESSES
      then \<lparr>rc_address = address, rc_status = Sanctioned, rc_riskScore = 100, rc_checkedAt = now,
            rc_details = \<lparr>rd_sanctionLists = [js ''OFAC SDN'', js ''EU Sanctions List''],
                          rd_flags = [js ''Linked to illicit activities'', js ''On government watchlist''],
                          rd_linkedToMixer = True, rd_linkedToExploit = False\<rparr>\<rparr>
      else if address \<in> set MOCK_FLAGGED_ADDRESSES
      then \<lparr>rc_address = address, rc_status = Flagged, rc_riskScore = 65, rc_checkedAt = now,
            rc_details = \<lparr>rd_sanctionLists = [],
                          rd_flags = [js ''Suspicious activity patterns'', js ''Under investigation''],
                          rd_linkedToMixer = False, rd_linkedToExploit = False\<rparr>\<rparr>
      else (let deterministicSeed = hashAddress address;
                baseRiskScore = deterministicSeed mod 30
            in \<lparr>rc_address = address, rc_status = Clean, rc_riskScore = baseRiskScore,
                 rc_checkedAt = now,
                 rc_details = \<lparr>rd_sanctionLists = [], rd_flags = [],
                               rd_linkedToMixer = False, rd_linkedToExploit = False\<rparr>\<rparr>))"

record AddressRisks =
  ar_sanctionedAddresses :: "jsstring list"
  ar_flaggedAddresses :: "jsstring list"
  ar_totalChecked :: nat

definition checkInteracting :: "real \<Rightarrow> jsstring \<Rightarrow> AddressRisks \<Rightarrow> AddressRisks" where
  "checkInteracting now address st =
     (let result = checkRisk now address
      in if rc_status result = Sanctioned
         then st\<lparr>ar_sanctionedAddresses := ar_sanctionedAddresses st @ [address]\<rparr>
         else if rc_status result = Flagged
         then st\<lparr>ar_flaggedAddresses := ar_flaggedAddresses st @ [address]\<rparr>
         else st)"

definition checkInteractingAddresses :: "real \<Rightarrow> (jsstring \<times> nat) list \<Rightarrow> AddressRisks" where
  "checkInteractingAddresses now addresses =
     fold (checkInteracting now) (map fst addresses)
       \<lparr>ar_sanctionedAddresses = [], ar_flaggedAddresses = [], ar_totalChecked = length addresses\<rparr>"

text \<open>The counterparty extractor of the indexing service.\<close>

definition noteInteraction ::
  "jsstring \<Rightarrow> jsstring \<Rightarrow> jsstring \<Rightarrow> (jsstring \<times> nat) list \<Rightarrow> (jsstring \<times> nat) list" where
  "noteInteraction walletAddress fromUserAccount toUserAccount addressCounts =
     (let other = otherAddress walletAddress fromUserAccount toUserAccount
      in if truthy other \<and> other \<noteq> walletAddress
         then AList.update other (getOrZero addressCounts other + 1) addressCounts
         else addressCounts)"

definition getInteractingAddresses :: "ParsedTransaction list \<Rightarrow> jsstring \<Rightarrow> (jsstring \<times> nat) list" where
  "getInteractingAddresses transactions walletAddress =
     fold (\<lambda>tx addressCounts.
             fold (\<lambda>transfer. noteInteraction walletAddress (tt_fromUserAccount transfer)
                                (tt_toUserAccount transfer))
               (tx_tokenTransfers tx)
               (fold (\<lambda>transfer. noteInteraction walletAddress (nt_fromUserAccount transfer)
                                   (nt_toUserAccount transfer))
                  (tx_nativeTransfers tx) addressCounts))
       transactions []"

section \<open>The risk aggregator\<close>

record ScoreInput =
  si_cexResult :: CEXDetectionResult
  si_clusteringResult :: ClusteringResult
  si_assetsResult :: AssetsDetectionResult
  si_complianceResult :: RangeCheckResult
  si_addressRisks :: AddressRisks
  si_washTradingDetected :: bool

record Deduction =
  de_reason :: jsstring
  de_points :: int

record ScoreOutput =
  so_score :: int
  so_deductions :: "Deduction list"

definition deduct :: "jsstring \<Rightarrow> int \<Rightarrow> ScoreOutput \<Rightarrow> ScoreOutput" where
  "deduct reason points st =
     \<lparr>so_score = so_score st - points,
      so_deductions = so_deductions st @ [\<lparr>de_reason = reason, de_points = points\<rparr>]\<rparr>"

definition patternName :: "ClusterPattern \<Rightarrow> jsstring" where
  "patternName p =
     (case p of none \<Rightarrow> js ''none'' | single_counterparty \<Rightarrow> js ''single_counterparty''
      | small_cluster \<Rightarrow> js ''small_cluster'' | wash_trading \<Rightarrow> js ''wash_trading''
      | funnel \<Rightarrow> js ''funnel'')"

text \<open>
  \<open>calculatePrivacyScore\<close> in its two parts: the six conditional deductions, in their
  order, and the clamp of the score that closes the function.
\<close>

definition applyDeductions :: "ScoreInput \<Rightarrow> ScoreOutput" where
  "applyDeductions input =
     (let s0 = \<lparr>so_score = 100, so_deductions = []\<rparr>;
          s1 = (if cex_riskContribution (si_cexResult input) > 0
                then deduct (js ''CEX activity ('' @
                             decimal (cex_totalCEXTransactions (si_cexResult input)) @
                             js '' transactions)'')
                       (cex_riskContribution (si_cexResult input)) s0
                else s0);
          s2 = (if cl_riskContribution (si_clusteringResult input) > 0
                then deduct (js ''Clustering pattern: '' @
                             patternName (cl_pattern (si_clusteringResult input)))
                       (cl_riskContribution (si_clusteringResult input)) s1
                else s1);
          s3 = (if as_riskContribution (si_assetsResult input) > 0
                then deduct (js ''Identity-revealing assets'')
                       (as_riskContribution (si_assetsResult input)) s2
                else s2);
          s4 = (if rc_status (si_complianceResult input) = Sanctioned
                then deduct (js ''Wallet on sanctions list'') 50 s3
                else if rc_status (si_complianceResult input) = Flagged
                then deduct (js ''Wallet flagged for suspicious activity'') 25 s3
                else s3);
          s5 = (if length (ar_sanctionedAddresses (si_addressRisks input)) > 0
                then (let penalty =
                            min (int (length (ar_sanctionedAddresses (si_addressRisks input))) * 20) 40
                      in deduct (js ''Interacted with '' @
                                 decimal (length (ar_sanctionedAddresses (si_addressRisks input))) @
                                 js '' sanctioned address(es)'')
                           penalty s4)
                else s4)
      in if si_washTradingDetected input
         then deduct (js ''Wash trading pattern detected'') 15 s5
         else s5)"

definition calculatePrivacyScore :: "ScoreInput \<Rightarrow> ScoreOutput" where
  "calculatePrivacyScore input =
     (let st = applyDeductions input
      in st\<lparr>so_score := max 0 (min 100 (so_score st))\<rparr>)"

definition determineRiskLevel :: "int \<Rightarrow> RiskLevel" where
  "determineRiskLevel score =
     (if score \<le> st_CRITICAL SCORE_THRESHOLDS then CRITICAL
      else if score \<le> st_HIGH SCORE_THRESHOLDS then HIGH
      else if score \<le> st_MEDIUM SCORE_THRESHOLDS then MEDIUM
      else LOW)"

definition getRiskDescription :: "RiskLevel \<Rightarrow> jsstring" where
  "getRiskDescription level =
     (case level of
        CRITICAL \<Rightarrow> js ''Critical privacy risk. Your wallet is highly traceable and may be linked to your identity.''
      | HIGH \<Rightarrow> js ''High privacy risk. Significant linkages exist that could compromise your anonymity.''
      | MEDIUM \<Rightarrow> js ''Moderate privacy risk. Some patterns could be used to link your activities.''
      | LOW \<Rightarrow> js ''Good privacy posture. Minimal identifiable patterns detected.'')"

section \<open>Warnings and recommendations\<close>

datatype Severity = severity_low | severity_medium | severity_high | severity_critical

datatype Priority = priority_low | priority_medium | priority_high

record Warning =
  wa_severity :: Severity
  wa_category :: jsstring
  wa_message :: jsstring

record Recommendation =
  re_priority :: Priority
  re_category :: jsstring
  re_action :: jsstring
  re_tool :: "jsstring option"
  re_toolUrl :: "jsstring option"

record WarningInput =
  wi_cexResult :: CEXDetectionResult
  wi_clusteringResult :: ClusteringResult
  wi_assetsResult :: AssetsDetectionResult
  wi_complianceResult :: RangeCheckResult
  wi_addressRisks :: AddressRisks

text \<open>
  The sanctions warning opens with a warning sign, the code units U+26A0 and U+FE0F.
\<close>

definition collectWarnings :: "WarningInput \<Rightarrow> Warning list" where
  "collectWarnings input =
     map (\<lambda>msg. \<lparr>wa_severity = severity_high, wa_category = js ''CEX'', wa_message = msg\<rparr>)
         (generateCEXWarnings (wi_cexResult input)) @
     map (\<lambda>msg. \<lparr>wa_severity = severity_medium, wa_category = js ''Clustering'', wa_message = msg\<rparr>)
         (generateClusteringWarnings (wi_clusteringResult input)) @
     map (\<lambda>msg. \<lparr>wa_severity = severity_medium, wa_category = js ''Identity'', wa_message = msg\<rparr>)
         (generateAssetWarnings (wi_assetsResult input)) @
     (if rc_status (wi_complianceResult input) = Sanctioned
      then [\<lparr>wa_severity = severity_critical, wa_category = js ''Compliance'',
             wa_message = [0x26A0, 0xFE0F] @ js '' CRITICAL: This wallet is on a sanctions list!''\<rparr>]
      else if rc_status (wi_complianceResult input) = Flagged
      then [\<lparr>wa_severity = severity_high, wa_category = js ''Compliance'',
             wa_message = js ''This wallet has been flagged for suspicious activity.''\<rparr>]
      else []) @
     (if length (ar_sanctionedAddresses (wi_addressRisks input)) > 0
      then [\<lparr>wa_severity = severity_critical, wa_category = js ''Compliance'',
             wa_message = js ''This wallet has interacted with '' @
                          decimal (length (ar_sanctionedAddresses (wi_addressRisks input))) @
                          js '' sanctioned address(es).''\<rparr>]
      else [])"

record RecommendationInput =
  ri_cexResult :: CEXDetectionResult
  ri_clusteringResult :: ClusteringResult
  ri_assetsResult :: AssetsDetectionResult
  ri_complianceResult :: RangeCheckResult
  ri_score :: int

definition findTool :: "jsstring \<Rightarrow> RecommendedTool option" where
  "findTool useCase = find (\<lambda>t. rt_useCase t = useCase) RECOMMENDED_TOOLS"

definition recommend ::
  "Priority \<Rightarrow> jsstring \<Rightarrow> RecommendedTool option \<Rightarrow> jsstring \<Rightarrow> Recommendation" where
  "recommend priority category tool action =
     \<lparr>re_priority = priority, re_category = category, re_action = action,
      re_tool = map_option rt_name tool, re_toolUrl = map_option rt_url tool\<rparr>"

definition generateRecommendations :: "RecommendationInput \<Rightarrow> Recommendation list" where
  "generateRecommendations input =
     map (recommend priority_high (js ''CEX'') (findTool (js ''CEX_DEPOSIT'')))
         (generateCEXActions (ri_cexResult input)) @
     map (recommend priority_medium (js ''Clustering'') (findTool (js ''CLUSTER_DETECTED'')))
         (generateClusteringActions (ri_clusteringResult input)) @
     map (recommend priority_medium (js ''Identity'') None)
         (generateAssetActions (ri_assetsResult input)) @
     (if rc_status (ri_complianceResult input) \<noteq> Clean
      then [recommend priority_high (js ''Compliance'') (findTool (js ''SANCTIONED_INTERACTION''))
              (js ''Consult Range Protocol for compliance review and remediation options.'')]
      else []) @
     (if ri_score input < 50
      then [recommend priority_high (js ''General'') (findTool (js ''GENERAL_PRIVACY''))
              (js ''Consider creating a fresh wallet and using privacy-preserving tools for future transactions.'')]
      else [])"

section \<open>The analysis engine\<close>

record DetectorResults =
  dr_cex :: CEXDetectionResult
  dr_clustering :: ClusteringResult
  dr_assets :: AssetsDetectionResult
  dr_compliance :: RangeCheckResult
  dr_interactingAddressRisks :: AddressRisks

record AnalysisMetadata =
  am_heliusEnabled :: bool
  am_apiLimitReached :: bool
  am_analysisTimeMs :: real

record FinancialExposure =
  fe_exposedSol :: real
  fe_exposedUsd :: real
  fe_cexVolumeSol :: real

record PrivacyReport =
  rp_walletAddress :: jsstring
  rp_analyzedAt :: real
  rp_balance :: real
  rp_transactionsAnalyzed :: nat
  rp_score :: int
  rp_riskLevel :: RiskLevel
  rp_riskDescription :: jsstring
  rp_warnings :: "Warning list"
  rp_actions :: "Recommendation list"
  rp_detectorResults :: DetectorResults
  rp_analysisMetadata :: AnalysisMetadata
  rp_financialExposure :: FinancialExposure

text \<open>
  What \<open>analyzeWallet\<close> takes from outside itself: the readings of the clock (on entry,
  for the compliance check, for the report and on leaving), whether the indexing
  service is ready, the transaction list that step 1 ends with (fetched, or the
  built-in sample when the service is not ready), and the balance.
\<close>

record Env =
  en_startTime :: real
  en_checkedAt :: real
  en_analyzedAt :: real
  en_endTime :: real
  en_heliusEnabled :: bool
  en_transactions :: "ParsedTransaction list"
  en_realBalance :: real

text \<open>The pattern \<open>/^[1-9A-HJ-NP-Za-km-z]{32,44}$/\<close>, tested on the whole string.\<close>

definition isValidSolanaAddress :: "jsstring \<Rightarrow> bool" where
  "isValidSolanaAddress address =
     (32 \<le> length address \<and> length address \<le> 44 \<and> list_all isBase58 address)"

definition amountOrZero :: "CEXTransaction \<Rightarrow> real" where
  "amountOrZero d = (case cx_amount d of Some a \<Rightarrow> a | None \<Rightarrow> 0)"

text \<open>
  The body of the \<open>try\<close> block. \<open>Inl\<close> is the message of the error it throws; the
  services it calls catch their own failures, so the address check is its one \<open>throw\<close>.
\<close>

definition analysis :: "Env \<Rightarrow> jsstring \<Rightarrow> jsstring + PrivacyReport" where
  "analysis env address =
     (if \<not> isValidSolanaAddress address
      then Inl (js ''Invalid Solana address: '' @ address)
      else
        (let heliusEnabled = en_heliusEnabled env;
             transactions = en_transactions env;
             realBalance = en_realBalance env;
             complianceResult = checkRisk (en_checkedAt env) address;
             cexResult = detectCEXTransactions transactions address;
             clusteringResult = detectClustering transactions address;
             washTradingResult = detectWashTrading transactions address;
             assetsResult = detectIdentityAssets transactions address;
             interactingAddresses = getInteractingAddresses transactions address;
             addressRisks = checkInteractingAddresses (en_checkedAt env) interactingAddresses;
             scored = calculatePrivacyScore
                        \<lparr>si_cexResult = cexResult, si_clusteringResult = clusteringResult,
                         si_assetsResult = assetsResult, si_complianceResult = complianceResult,
                         si_addressRisks = addressRisks,
                         si_washTradingDetected = wt_detected washTradingResult\<rparr>;
             score = so_score scored;
             riskLevel = determineRiskLevel score;
             riskDescription = getRiskDescription riskLevel;
             warnings = collectWarnings
                          \<lparr>wi_cexResult = cexResult, wi_clusteringResult = clusteringResult,
                           wi_assetsResult = assetsResult, wi_complianceResult = complianceResult,
                           wi_addressRisks = addressRisks\<rparr>;
             actions = generateRecommendations
                         \<lparr>ri_cexResult = cexResult, ri_clusteringResult = clusteringResult,
                          ri_assetsResult = assetsResult, ri_complianceResult = complianceResult,
                          ri_score = score\<rparr>;
             analysisTimeMs = en_endTime env - en_startTime env;
             SOL_PRICE_USD = 150;
             cexVolumeSol = foldl (\<lambda>sum amount. sum + amount) 0
                              (map amountOrZero (cex_deposits cexResult) @
                               map amountOrZero (cex_withdrawals cexResult));
             exposedSol = max cexVolumeSol realBalance;
             exposedUsd = exposedSol * SOL_PRICE_USD
         in Inr \<lparr>rp_walletAddress = address, rp_analyzedAt = en_analyzedAt env,
                 rp_balance = realBalance, rp_transactionsAnalyzed = length transactions,
                 rp_score = score, rp_riskLevel = riskLevel,
                 rp_riskDescription = riskDescription, rp_warnings = warnings,
                 rp_actions = actions,
                 rp_detectorResults =
                   \<lparr>dr_cex = cexResult, dr_clustering = clusteringResult,
                    dr_assets = assetsResult, dr_compliance = complianceResult,
                    dr_interactingAddressRisks = addressRisks\<rparr>,
                 rp_analysisMetadata =
                   \<lparr>am_heliusEnabled = heliusEnabled, am_apiLimitReached = False,
                    am_analysisTimeMs = analysisTimeMs\<rparr>,
                 rp_financialExposure =
                   \<lparr>fe_exposedSol = exposedSol, fe_exposedUsd = exposedUsd,
                    fe_cexVolumeSol = cexVolumeSol\<rparr>\<rparr>))"

text \<open>The report of the \<open>catch\<close> block.\<close>

definition errorReport :: "Env \<Rightarrow> jsstring \<Rightarrow> jsstring \<Rightarrow> PrivacyReport" where
  "errorReport env address message =
     \<lparr>rp_walletAddress = address, rp_analyzedAt = en_analyzedAt env, rp_balance = 0,
      rp_transactionsAnalyzed = 0, rp_score = 0, rp_riskLevel = CRITICAL,
      rp_riskDescription = js ''Analysis failed - unable to assess privacy risk'',
      rp_warnings =
        [\<lparr>wa_severity = severity_critical, wa_category = js ''error'',
          wa_message = js ''Analysis error: '' @ message\<rparr>],
      rp_actions = [],
      rp_detectorResults =
        \<lparr>dr_cex = \<lparr>cex_detected = False, cex_deposits = [], cex_withdrawals = [],
                    cex_totalCEXTransactions = 0, cex_exchangesInvolved = [],
                    cex_riskContribution = 0\<rparr>,
         dr_clustering = \<lparr>cl_detected = False, cl_clusteringPercentage = 0, cl_topAddresses = [],
                           cl_dominantAddress = None, cl_totalUniqueAddresses = 0,
                           cl_totalTransactions = 0, cl_riskContribution = 0, cl_pattern = none\<rparr>,
         dr_assets = \<lparr>as_detected = False, as_nftsDetected = [], as_solDomainsDetected = [],
                       as_poapsDetected = [], as_identityExposureLevel = exposure_none,
                       as_riskContribution = 0\<rparr>,
         dr_compliance = \<lparr>rc_address = address, rc_status = Unknown, rc_riskScore = 0,
                           rc_checkedAt = en_checkedAt env,
                           rc_details = \<lparr>rd_sanctionLists = [], rd_flags = [],
                                         rd_linkedToMixer = False, rd_linkedToExploit = False\<rparr>\<rparr>,
         dr_interactingAddressRisks =
           \<lparr>ar_sanctionedAddresses = [], ar_flaggedAddresses = [], ar_totalChecked = 0\<rparr>\<rparr>,
      rp_analysisMetadata =
        \<lparr>am_heliusEnabled = False, am_apiLimitReached = False,
         am_analysisTimeMs = en_endTime env - en_startTime env\<rparr>,
      rp_financialExposure = \<lparr>fe_exposedSol = 0, fe_exposedUsd = 0, fe_cexVolumeSol = 0\<rparr>\<rparr>"

definition analyzeWallet :: "Env \<Rightarrow> jsstring \<Rightarrow> PrivacyReport" where
  "analyzeWallet env address =
     (case analysis env address of
        Inr report \<Rightarrow> report
      | Inl message \<Rightarrow> errorReport env address message)"

section \<open>Notions of the specification\<close>

text \<open>
  The definitions of this section are not translations of code: they say, in the words
  of the specification, what the theorems below compare the code with.
\<close>

text \<open>The tiers by gravity, to say that the tier falls as the score rises.\<close>

definition severityRank :: "RiskLevel \<Rightarrow> nat" where
  "severityRank level = (case level of LOW \<Rightarrow> 0 | MEDIUM \<Rightarrow> 1 | HIGH \<Rightarrow> 2 | CRITICAL \<Rightarrow> 3)"

text \<open>
  A score that is 100 less the sum of the deductions logged with it, none of them
  negative.
\<close>

definition consistent :: "ScoreOutput \<Rightarrow> bool" where
  "consistent st =
     (so_score st = 100 - sum_list (map de_points (so_deductions st)) \<and>
      list_all (\<lambda>d. 0 \<le> de_points d) (so_deductions st))"

text \<open>The alphabet that the ranges of the address pattern spell out.\<close>

definition base58Alphabet :: jsstring where
  "base58Alphabet = js ''123456789ABCDEFGHJKLMNPQRSTUVWXYZabcdefghijkmnopqrstuvwxyz''"

text \<open>What the engine hands to the aggregator for a valid address.\<close>

definition scoreInputOf :: "Env \<Rightarrow> jsstring \<Rightarrow> ScoreInput" where
  "scoreInputOf env address =
     \<lparr>si_cexResult = detectCEXTransactions (en_transactions env) address,
      si_clusteringResult = detectClustering (en_transactions env) address,
      si_assetsResult = detectIdentityAssets (en_transactions env) address,
      si_complianceResult = checkRisk (en_checkedAt env) address,
      si_addressRisks = checkInteractingAddresses (en_checkedAt env)
                          (getInteractingAddresses (en_transactions env) address),
      si_washTradingDetected = wt_detected (detectWashTrading (en_transactions env) address)\<rparr>"

text \<open>
  The counterparty interactions of a transaction list: the native and token transfers
  whose other side exists and is not the target.
\<close>

definition transferEnds :: "ParsedTransaction \<Rightarrow> (jsstring \<times> jsstring) list" where
  "transferEnds tx =
     map (\<lambda>transfer. (nt_fromUserAccount transfer, nt_toUserAccount transfer)) (tx_nativeTransfers tx) @
     map (\<lambda>transfer. (tt_fromUserAccount transfer, tt_toUserAccount transfer)) (tx_tokenTransfers tx)"

definition isCounterpartyInteraction :: "jsstring \<Rightarrow> jsstring \<times> jsstring \<Rightarrow> bool" where
  "isCounterpartyInteraction walletAddress ends =
     (let other = otherAddress walletAddress (fst ends) (snd ends)
      in truthy other \<and> other \<noteq> walletAddress)"

definition counterpartyInteractions :: "ParsedTransaction list \<Rightarrow> jsstring \<Rightarrow> nat" where
  "counterpartyInteractions transactions walletAddress =
     length (filter (isCounterpartyInteraction walletAddress) (concat (map transferEnds transactions)))"

text \<open>
  The times at which the target sent to a counterparty, and received from it, over the
  native transfers and in the order of the list.
\<close>

definition sentTimestamps :: "ParsedTransaction list \<Rightarrow> jsstring \<Rightarrow> jsstring \<Rightarrow> real list" where
  "sentTimestamps transactions walletAddress counterparty =
     concat (map (\<lambda>tx. map (\<lambda>transfer. tx_timestamp tx)
                          (filter (\<lambda>transfer. nt_fromUserAccount transfer = walletAddress \<and>
                                              nt_toUserAccount transfer = counterparty)
                             (tx_nativeTransfers tx)))
                 transactions)"

definition receivedTimestamps :: "ParsedTransaction list \<Rightarrow> jsstring \<Rightarrow> jsstring \<Rightarrow> real list" where
  "receivedTimestamps transactions walletAddress counterparty =
     concat (map (\<lambda>tx. map (\<lambda>transfer. tx_timestamp tx)
                          (filter (\<lambda>transfer. nt_toUserAccount transfer = walletAddress \<and>
                                              nt_fromUserAccount transfer = counterparty)
                             (tx_nativeTransfers tx)))
                 transactions)"

definition isWashPattern :: "Timeline \<Rightarrow> bool" where
  "isWashPattern timeline =
     (length (tl_sent timeline) \<ge> 2 \<and> length (tl_received timeline) \<ge> 2 \<and>
      countAlternations (allTimestamps timeline) \<ge> 3)"

text \<open>
  The deposit records that the transfer scan makes for one transaction: one for every
  native or token transfer from a registry address to the target.
\<close>

definition depositOf ::
  "jsstring \<Rightarrow> ParsedTransaction \<Rightarrow> jsstring \<Rightarrow> jsstring \<Rightarrow> real \<Rightarrow> CEXTransaction list" where
  "depositOf walletAddress tx fromUserAccount toUserAccount amt =
     (case findCEXAddress fromUserAccount of
        Some cexMatch \<Rightarrow>
          if toUserAccount = walletAddress then [cexRecord tx cexMatch Deposit (Some amt)] else []
      | None \<Rightarrow> [])"

definition transferDeposits :: "jsstring \<Rightarrow> ParsedTransaction \<Rightarrow> CEXTransaction list" where
  "transferDeposits walletAddress tx =
     concat (map (\<lambda>transfer. depositOf walletAddress tx (nt_fromUserAccount transfer)
                                (nt_toUserAccount transfer) (nt_amount transfer / 1000000000))
                 (tx_nativeTransfers tx)) @
     concat (map (\<lambda>transfer. depositOf walletAddress tx (tt_fromUserAccount transfer)
                                (tt_toUserAccount transfer) (tt_tokenAmount transfer))
                 (tx_tokenTransfers tx))"

text \<open>
  The deposit record made for the fee payer: one record without an amount when the fee
  payer is a registry address other than the target and the transfer scan made no
  deposit record for the transaction, none otherwise.
\<close>

definition feePayerDeposit :: "jsstring \<Rightarrow> ParsedTransaction \<Rightarrow> CEXTransaction list" where
  "feePayerDeposit walletAddress tx =
     (case findCEXAddress (tx_feePayer tx) of
        Some feePayerMatch \<Rightarrow>
          if tx_feePayer tx \<noteq> walletAddress \<and> transferDeposits walletAddress tx = []
          then [cexRecord tx feePayerMatch Deposit None]
          else []
      | None \<Rightarrow> [])"

text \<open>The polynomial that the address hash evaluates, before it is cut to 32 bits.\<close>

definition polynomial31 :: "jsstring \<Rightarrow> int" where
  "polynomial31 s = foldl (\<lambda>acc char. 31 * acc + int char) 0 s"

section \<open>Sample inputs\<close>

text \<open>The inputs at which the theorems below are instantiated.\<close>

definition sampleWallet :: jsstring where
  "sampleWallet = js ''vines1vzrYbzLMRdu58ou5XTby4qAqVRLmqo36NKPTg''"

text \<open>A wallet of the sanctioned-address fixture.\<close>

definition sanctionedWallet :: jsstring where
  "sanctionedWallet = js ''7eEqn3zGpQqq8fYjzqhfvwRRRVrBe3D3P4YfZ12GsAC1''"

definition binanceWallet :: jsstring where
  "binanceWallet = js ''5tzFkiKscXHK5ZXCGbXZxdw7gTjjD1mBwuoFbhUvuAi9''"

definition krakenWallet :: jsstring where
  "krakenWallet = js ''7hUdUTkJLwdcmt3jSEeqx4ep91sm1XwBxMDaJae6bD5D''"

definition coinbaseWallet :: jsstring where
  "coinbaseWallet = js ''H8sMJSCQxfKiFTCfDR3DUMLPwcRbM61LGFJ8N4dK3WjS''"

definition friendWallet :: jsstring where
  "friendWallet = js ''Fr1endWa11etXXXXXXXXXXXXXXXXXXXXXXXXXXXXXXX''"

definition otherWallet :: jsstring where
  "otherWallet = js ''otherWa11etYYYYYYYYYYYYYYYYYYYYYYYYYYYYYYYY''"

text \<open>A transaction that carries the given native transfers and nothing else.\<close>

definition nativeTx ::
  "string \<Rightarrow> real \<Rightarrow> jsstring \<Rightarrow> NativeTransfer list \<Rightarrow> ParsedTransaction" where
  "nativeTx sig time feePayer transfers =
     \<lparr>tx_signature = js sig, tx_timestamp = time, tx_description = js ''Transferred SOL'',
      tx_feePayer = feePayer, tx_accountData = [], tx_tokenTransfers = [],
      tx_nativeTransfers = transfers, tx_events = \<lparr>ev_nft = None\<rparr>\<rparr>"

definition native :: "jsstring \<Rightarrow> jsstring \<Rightarrow> real \<Rightarrow> NativeTransfer" where
  "native fromUserAccount toUserAccount amount =
     \<lparr>nt_fromUserAccount = fromUserAccount, nt_toUserAccount = toUserAccount, nt_amount = amount\<rparr>"

text \<open>2.5 SOL from the sample wallet to Binance, the fee paid by the sender.\<close>

definition withdrawalTx :: ParsedTransaction where
  "withdrawalTx =
     nativeTx ''sigA'' 1700000000 sampleWallet [native sampleWallet binanceWallet 2500000000]"

text \<open>The same transfer, the fee paid by the exchange.\<close>

definition exchangePaidTx :: ParsedTransaction where
  "exchangePaidTx =
     nativeTx ''sigB'' 1700000000 binanceWallet [native sampleWallet binanceWallet 2500000000]"

text \<open>The same transfer again, where the wallet under analysis is the Binance wallet itself.\<close>

definition selfTransferTx :: ParsedTransaction where
  "selfTransferTx =
     nativeTx ''sigC'' 1700000000 binanceWallet [native binanceWallet binanceWallet 2500000000]"

text \<open>1 SOL from the sample wallet to Kraken, the fee paid by another Kraken wallet.\<close>

definition krakenTx :: ParsedTransaction where
  "krakenTx =
     nativeTx ''sigD'' 1700000100 (js ''FWznbcNXWQuHTawe9RxvQ2LdCENssh12dsznf4RiouN5'')
       [native sampleWallet krakenWallet 1000000000]"

text \<open>A transaction without transfers whose fee Coinbase paid, and a deposit from Binance.\<close>

definition sponsoredTx :: ParsedTransaction where
  "sponsoredTx = nativeTx ''sigE'' 1700000200 coinbaseWallet []"

definition depositTx :: ParsedTransaction where
  "depositTx =
     nativeTx ''sigF'' 1700000300 binanceWallet [native binanceWallet sampleWallet 1000000000]"

text \<open>Four transfers back and forth with one counterparty.\<close>

definition washSample :: "ParsedTransaction list" where
  "washSample =
     [nativeTx ''w1'' 100 sampleWallet [native sampleWallet friendWallet 1000],
      nativeTx ''w2'' 200 friendWallet [native friendWallet sampleWallet 1000],
      nativeTx ''w3'' 300 sampleWallet [native sampleWallet friendWallet 1000],
      nativeTx ''w4'' 400 friendWallet [native friendWallet sampleWallet 1000]]"

text \<open>Five transfers, three of them with the same counterparty.\<close>

definition clusterSample :: "ParsedTransaction list" where
  "clusterSample =
     [nativeTx ''c1'' 100 sampleWallet
        [native sampleWallet friendWallet 1000, native sampleWallet otherWallet 1000,
         native sampleWallet friendWallet 1000, native otherWallet sampleWallet 1000,
         native friendWallet sampleWallet 1000]]"

text \<open>The purchase of an NFT by the sample wallet; the wallet buys the same mint twice.\<close>

definition nftBuy :: "string \<Rightarrow> real \<Rightarrow> ParsedTransaction" where
  "nftBuy sig time =
     \<lparr>tx_signature = js sig, tx_timestamp = time,
      tx_description = js ''vines1 bought Mad Lad #1 for 10 SOL'',
      tx_feePayer = sampleWallet, tx_accountData = [], tx_tokenTransfers = [],
      tx_nativeTransfers = [],
      tx_events =
        \<lparr>ev_nft = Some \<lparr>ne_buyer = Some sampleWallet,
                          ne_nfts = Some [\<lparr>ni_mint = js ''MadLadMint1111111111111111111111111111111''\<rparr>]\<rparr>\<rparr>\<rparr>"

definition sampleEnv :: "ParsedTransaction list \<Rightarrow> Env" where
  "sampleEnv transactions =
     \<lparr>en_startTime = 1000, en_checkedAt = 1200, en_analyzedAt = 1500, en_endTime = 1600,
      en_heliusEnabled = True, en_transactions = transactions, en_realBalance = 3\<rparr>"

section \<open>Literals\<close>

lemma js_eq_iff [simp]: "js a = js b \<longleftrightarrow> a = b"
  by (simp add: js_def inj_map_eq_map inj_def)

lemma js_length [simp]: "length (js s) = length s"
  by (simp add: js_def)

lemma js_empty [simp]: "js s = [] \<longleftrightarrow> s = []"
  by (simp add: js_def)

section \<open>The score and the tier\<close>

lemma consistent_start: "consistent \<lparr>so_score = 100, so_deductions = []\<rparr>"
  by (simp add: consistent_def)

lemma consistent_deduct:
  "consistent st \<Longrightarrow> (c \<Longrightarrow> 0 \<le> points) \<Longrightarrow>
   consistent (if c then deduct reason points st else st)"
  by (simp add: consistent_def deduct_def)

lemma consistent_deduct_always:
  "consistent st \<Longrightarrow> 0 \<le> points \<Longrightarrow> consistent (deduct reason points st)"
  by (simp add: consistent_def deduct_def)

lemma consistent_choice:
  "consistent a \<Longrightarrow> consistent b \<Longrightarrow> consistent (if c then a else b)"
  by simp

lemma consistent_applyDeductions: "consistent (applyDeductions input)"
  unfolding applyDeductions_def Let_def
  by (intro consistent_deduct consistent_deduct_always consistent_choice consistent_start)
     simp_all

lemma score_clamped:
  "0 \<le> so_score (calculatePrivacyScore input) \<and> so_score (calculatePrivacyScore input) \<le> 100"
  by (simp add: calculatePrivacyScore_def Let_def)

lemma score_formula:
  "so_score (calculatePrivacyScore input) =
     max 0 (min 100 (100 - sum_list (map de_points (so_deductions (calculatePrivacyScore input)))))"
  using consistent_applyDeductions [of input]
  by (simp add: calculatePrivacyScore_def Let_def consistent_def)

lemma deductions_nonnegative:
  "list_all (\<lambda>d. 0 \<le> de_points d) (so_deductions (calculatePrivacyScore input))"
  using consistent_applyDeductions [of input]
  by (simp add: calculatePrivacyScore_def Let_def consistent_def)

lemma report_score:
  "rp_score (analyzeWallet env address) =
     (if isValidSolanaAddress address
      then so_score (calculatePrivacyScore (scoreInputOf env address))
      else 0)"
  by (simp add: analyzeWallet_def analysis_def errorReport_def Let_def scoreInputOf_def)

text \<open>
  Claim C1. The score of every report is between 0 and 100. For a valid address it is
  the score of the aggregator, which is 100 less the sum of the deductions it logged,
  clamped to the range from 0 to 100, and no deduction is negative; for an invalid
  address it is 0.
\<close>

theorem privacy_score_in_range:
  "0 \<le> rp_score (analyzeWallet env address) \<and>
   rp_score (analyzeWallet env address) \<le> 100 \<and>
   rp_score (analyzeWallet env address) =
     (if isValidSolanaAddress address
      then so_score (calculatePrivacyScore (scoreInputOf env address))
      else 0) \<and>
   so_score (calculatePrivacyScore input) =
     max 0 (min 100 (100 - sum_list (map de_points (so_deductions (calculatePrivacyScore input))))) \<and>
   list_all (\<lambda>d. 0 \<le> de_points d) (so_deductions (calculatePrivacyScore input))"
proof -
  have low: "0 \<le> rp_score (analyzeWallet env address)"
    by (simp add: report_score score_clamped)
  have high: "rp_score (analyzeWallet env address) \<le> 100"
    by (simp add: report_score score_clamped)
  from low high report_score [of env address] score_formula [of input]
       deductions_nonnegative [of input]
  show ?thesis by (intro conjI)
qed

lemmas empty_history =
  scoreInputOf_def sampleEnv_def calculatePrivacyScore_def applyDeductions_def Let_def deduct_def
  detectCEXTransactions_def detectClustering_def detectIdentityAssets_def detectWashTrading_def
  buildTimelines_def countInteractions_def ANALYSIS_CONFIG_def getInteractingAddresses_def
  checkInteractingAddresses_def

theorem privacy_score_in_range_witness:
  "isValidSolanaAddress sanctionedWallet \<and>
   map de_points
     (so_deductions (calculatePrivacyScore (scoreInputOf (sampleEnv []) sanctionedWallet))) = [50] \<and>
   so_score (calculatePrivacyScore (scoreInputOf (sampleEnv []) sanctionedWallet)) = 50 \<and>
   rp_score (analyzeWallet (sampleEnv []) sanctionedWallet) = 50 \<and>
   0 \<le> rp_score (analyzeWallet (sampleEnv []) sanctionedWallet) \<and>
   rp_score (analyzeWallet (sampleEnv []) sanctionedWallet) \<le> 100"
proof -
  note range =
    privacy_score_in_range
      [of "sampleEnv []" sanctionedWallet "scoreInputOf (sampleEnv []) sanctionedWallet"]
  have valid: "isValidSolanaAddress sanctionedWallet"
    by (simp add: isValidSolanaAddress_def sanctionedWallet_def js_def isBase58_def in_range_def)
  have status: "\<And>t. rc_status (checkRisk t sanctionedWallet) = Sanctioned"
    by (simp add: checkRisk_def truthy_def MOCK_SANCTIONED_ADDRESSES_def sanctionedWallet_def)
  have points:
    "map de_points
       (so_deductions (calculatePrivacyScore (scoreInputOf (sampleEnv []) sanctionedWallet))) = [50]"
    by (simp add: status empty_history)
  have aggregated:
    "so_score (calculatePrivacyScore (scoreInputOf (sampleEnv []) sanctionedWallet)) = 50"
    using range [THEN conjunct2, THEN conjunct2, THEN conjunct2, THEN conjunct1]
    by (simp only: points) simp
  have reported: "rp_score (analyzeWallet (sampleEnv []) sanctionedWallet) = 50"
    using range [THEN conjunct2, THEN conjunct2, THEN conjunct1] valid aggregated by simp
  from valid points aggregated reported range [THEN conjunct1] range [THEN conjunct2, THEN conjunct1]
  show ?thesis by (intro conjI)
qed

text \<open>
  Claim C2. The tier is CRITICAL up to 25, HIGH up to 50, MEDIUM up to 75 and LOW above;
  the scores 25, 50 and 75 still belong to the graver tier; and a higher score never has
  a graver tier than a lower one.
\<close>

theorem risk_tier_buckets:
  "determineRiskLevel score =
     (if score \<le> 25 then CRITICAL else if score \<le> 50 then HIGH
      else if score \<le> 75 then MEDIUM else LOW) \<and>
   determineRiskLevel 25 = CRITICAL \<and>
   determineRiskLevel 50 = HIGH \<and>
   determineRiskLevel 75 = MEDIUM \<and>
   (lower \<le> higher \<longrightarrow>
      severityRank (determineRiskLevel higher) \<le> severityRank (determineRiskLevel lower))"
proof -
  have buckets: "\<And>s. determineRiskLevel s =
     (if s \<le> 25 then CRITICAL else if s \<le> 50 then HIGH else if s \<le> 75 then MEDIUM else LOW)"
    by (simp add: determineRiskLevel_def SCORE_THRESHOLDS_def)
  have "lower \<le> higher \<longrightarrow>
        severityRank (determineRiskLevel higher) \<le> severityRank (determineRiskLevel lower)"
    by (simp add: buckets severityRank_def)
  then show ?thesis
    by (simp add: buckets)
qed

theorem risk_tier_buckets_witness:
  "(26 :: int) \<le> 76 \<and>
   determineRiskLevel 76 = LOW \<and>
   severityRank (determineRiskLevel 76) \<le> severityRank (determineRiskLevel 26)"
proof -
  note buckets = risk_tier_buckets [of 76 26 76]
  have le: "(26 :: int) \<le> 76" by simp
  have tier: "determineRiskLevel 76 = LOW"
    using buckets [THEN conjunct1] by simp
  note falls = buckets [THEN conjunct2, THEN conjunct2, THEN conjunct2, THEN conjunct2, THEN mp, OF le]
  from le tier falls show ?thesis by (intro conjI)
qed

section \<open>Invalid addresses\<close>

lemma isBase58_alphabet: "isBase58 c \<longleftrightarrow> c \<in> set base58Alphabet"
  unfolding isBase58_def in_range_def base58Alphabet_def js_def
  apply simp
  apply arith
  done

text \<open>
  The validation in the words of the specification: 32 to 44 characters, all of the
  base58 alphabet.
\<close>

lemma isValidSolanaAddress_alphabet:
  "isValidSolanaAddress address \<longleftrightarrow>
     32 \<le> length address \<and> length address \<le> 44 \<and> set address \<subseteq> set base58Alphabet"
  by (auto simp add: isValidSolanaAddress_def list_all_iff isBase58_alphabet)

text \<open>
  Claim C3. For an address that fails the validation, \<open>analyzeWallet\<close> returns the report
  of its handler: score 0, tier CRITICAL, and one warning, of critical severity, whose
  message names the invalid address. The function returns a report on every input; it
  has no error result.
\<close>

theorem invalid_address_degraded_report:
  "\<not> isValidSolanaAddress address \<Longrightarrow>
   analyzeWallet env address =
     errorReport env address (js ''Invalid Solana address: '' @ address) \<and>
   rp_score (analyzeWallet env address) = 0 \<and>
   rp_riskLevel (analyzeWallet env address) = CRITICAL \<and>
   rp_warnings (analyzeWallet env address) =
     [\<lparr>wa_severity = severity_critical, wa_category = js ''error'',
       wa_message = js ''Analysis error: Invalid Solana address: '' @ address\<rparr>]"
  by (simp add: analyzeWallet_def analysis_def errorReport_def js_def)

theorem invalid_address_degraded_report_witness:
  "\<not> isValidSolanaAddress (js ''short12345'') \<and>
   rp_score (analyzeWallet (sampleEnv []) (js ''short12345'')) = 0 \<and>
   rp_riskLevel (analyzeWallet (sampleEnv []) (js ''short12345'')) = CRITICAL \<and>
   rp_warnings (analyzeWallet (sampleEnv []) (js ''short12345'')) =
     [\<lparr>wa_severity = severity_critical, wa_category = js ''error'',
       wa_message = js ''Analysis error: Invalid Solana address: short12345''\<rparr>]"
proof -
  have invalid: "\<not> isValidSolanaAddress (js ''short12345'')"
    by (simp add: isValidSolanaAddress_def js_def)
  have msg: "js ''Analysis error: Invalid Solana address: '' @ js ''short12345'' =
             js ''Analysis error: Invalid Solana address: short12345''"
    by (simp add: js_def)
  note report =
    invalid_address_degraded_report [OF invalid, of "sampleEnv []", THEN conjunct2, unfolded msg]
  from invalid report show ?thesis by (rule conjI)
qed

section \<open>The compliance screener is repeatable\<close>

lemma toInt32_cong: "toInt32 x mod 2 ^ 32 = x mod 2 ^ 32"
proof -
  have "toInt32 x mod 2 ^ 32 = ((x + 2 ^ 31) mod 2 ^ 32 - 2 ^ 31) mod 2 ^ 32"
    by (simp add: toInt32_def)
  also have "\<dots> = (x + 2 ^ 31 - 2 ^ 31) mod 2 ^ 32"
    by (rule mod_diff_left_eq)
  finally show ?thesis by simp
qed

lemma toInt32_eqI: "x mod 2 ^ 32 = y mod 2 ^ 32 \<Longrightarrow> toInt32 x = toInt32 y"
proof -
  assume "x mod 2 ^ 32 = y mod 2 ^ 32"
  then have "(x + 2 ^ 31) mod 2 ^ 32 = (y + 2 ^ 31) mod 2 ^ 32"
    by (rule mod_add_cong) simp
  then show ?thesis by (simp add: toInt32_def)
qed

lemma toInt32_range: "- (2 ^ 31) \<le> toInt32 x \<and> toInt32 x < 2 ^ 31"
proof -
  have "0 \<le> (x + 2 ^ 31) mod (2 ^ 32 :: int)" by simp
  moreover have "(x + 2 ^ 31) mod (2 ^ 32 :: int) < 2 ^ 32" by simp
  ultimately show ?thesis by (simp add: toInt32_def)
qed

lemma hashStep_cong:
  assumes "h mod 2 ^ 32 = p mod 2 ^ 32"
  shows "hashStep h c = toInt32 (31 * p + int c)"
proof -
  have "toInt32 (toInt32 h * 2 ^ 5) mod 2 ^ 32 = (toInt32 h * 2 ^ 5) mod 2 ^ 32"
    by (rule toInt32_cong)
  also have "\<dots> = (h * 2 ^ 5) mod 2 ^ 32"
    by (rule mod_mult_cong [OF toInt32_cong refl])
  finally have shifted: "toInt32 (toInt32 h * 2 ^ 5) mod 2 ^ 32 = (h * 2 ^ 5) mod 2 ^ 32" .
  have "(toInt32 (toInt32 h * 2 ^ 5) - h + int c) mod 2 ^ 32 = (h * 2 ^ 5 - h + int c) mod 2 ^ 32"
    by (rule mod_add_cong [OF mod_diff_cong [OF shifted refl] refl])
  also have "h * 2 ^ 5 - h + int c = 31 * h + int c"
    by simp
  also have "(31 * h + int c) mod 2 ^ 32 = (31 * p + int c) mod 2 ^ 32"
    by (rule mod_add_cong [OF mod_mult_cong [OF refl assms] refl])
  finally show ?thesis
    unfolding hashStep_def by (rule toInt32_eqI)
qed

lemma polynomial31_snoc: "polynomial31 (s @ [c]) = 31 * polynomial31 s + int c"
  by (simp add: polynomial31_def)

lemma foldl_hashStep:
  "foldl hashStep 0 s mod 2 ^ 32 = polynomial31 s mod 2 ^ 32 \<and>
   foldl hashStep 0 s = toInt32 (polynomial31 s)"
proof (induction s rule: rev_induct)
  case Nil
  show ?case by (simp add: polynomial31_def toInt32_def)
next
  case (snoc c s)
  from snoc have m: "foldl hashStep 0 s mod 2 ^ 32 = polynomial31 s mod 2 ^ 32"
    by (rule conjunct1)
  have "foldl hashStep 0 (s @ [c]) = hashStep (foldl hashStep 0 s) c"
    by simp
  also have "\<dots> = toInt32 (31 * polynomial31 s + int c)"
    by (rule hashStep_cong [OF m])
  also have "\<dots> = toInt32 (polynomial31 (s @ [c]))"
    by (simp only: polynomial31_snoc)
  finally have eq: "foldl hashStep 0 (s @ [c]) = toInt32 (polynomial31 (s @ [c]))" .
  have "foldl hashStep 0 (s @ [c]) mod 2 ^ 32 = polynomial31 (s @ [c]) mod 2 ^ 32"
    unfolding eq by (rule toInt32_cong)
  with eq show ?case by (rule conjI [rotated])
qed

text \<open>
  The hash is a stable function of the text alone: the polynomial in 31 over the code
  units, cut to 32 bits, without its sign.
\<close>

lemma hashAddress_polynomial: "hashAddress address = \<bar>toInt32 (polynomial31 address)\<bar>"
  by (simp add: hashAddress_def foldl_hashStep)

lemma hashAddress_range: "0 \<le> hashAddress address \<and> hashAddress address \<le> 2 ^ 31"
  using toInt32_range [of "polynomial31 address"] unfolding hashAddress_polynomial by arith

lemma checkRisk_checkedAt: "rc_checkedAt (checkRisk now address) = now"
  by (simp add: checkRisk_def Let_def)

lemma checkRisk_clock:
  "checkRisk later address = (checkRisk earlier address)\<lparr>rc_checkedAt := later\<rparr>"
  by (simp add: checkRisk_def Let_def)

lemma checkRisk_clean:
  "rc_status (checkRisk now address) = Clean \<longrightarrow>
   rc_riskScore (checkRisk now address) = hashAddress address mod 30"
  by (simp add: checkRisk_def Let_def)

text \<open>
  Claim C4, as stated, fails: the result of \<open>checkRisk\<close> carries the time of the call in
  \<open>checkedAt\<close>, so two calls with the same address at different times differ.
\<close>

theorem checkRisk_clock_counterexample:
  "checkRisk 1000 sampleWallet \<noteq> checkRisk 2000 sampleWallet"
proof
  assume "checkRisk 1000 sampleWallet = checkRisk 2000 sampleWallet"
  then have "rc_checkedAt (checkRisk 1000 sampleWallet) = rc_checkedAt (checkRisk 2000 sampleWallet)"
    by (rule arg_cong)
  then show False
    by (simp add: checkRisk_checkedAt)
qed

text \<open>
  Claim C4, amended. Two calls of \<open>checkRisk\<close> with the same address give results that
  agree in every field but \<open>checkedAt\<close>, which is the time of each call: the same
  address, status, risk score and details. For a Clean address the risk score is the
  hash of the address reduced modulo 30, a number from 0 to 29.
\<close>

theorem checkRisk_repeatable:
  "checkRisk later address = (checkRisk earlier address)\<lparr>rc_checkedAt := later\<rparr> \<and>
   rc_address (checkRisk later address) = rc_address (checkRisk earlier address) \<and>
   rc_status (checkRisk later address) = rc_status (checkRisk earlier address) \<and>
   rc_riskScore (checkRisk later address) = rc_riskScore (checkRisk earlier address) \<and>
   rc_details (checkRisk later address) = rc_details (checkRisk earlier address) \<and>
   (rc_status (checkRisk earlier address) = Clean \<longrightarrow>
      rc_riskScore (checkRisk earlier address) = hashAddress address mod 30 \<and>
      0 \<le> rc_riskScore (checkRisk earlier address) \<and>
      rc_riskScore (checkRisk earlier address) < 30)"
proof -
  have same: "checkRisk later address = (checkRisk earlier address)\<lparr>rc_checkedAt := later\<rparr>"
    by (rule checkRisk_clock)
  have fields:
    "rc_address (checkRisk later address) = rc_address (checkRisk earlier address)"
    "rc_status (checkRisk later address) = rc_status (checkRisk earlier address)"
    "rc_riskScore (checkRisk later address) = rc_riskScore (checkRisk earlier address)"
    "rc_details (checkRisk later address) = rc_details (checkRisk earlier address)"
    by (simp_all add: checkRisk_clock [of later address earlier])
  have clean:
    "rc_status (checkRisk earlier address) = Clean \<longrightarrow>
       rc_riskScore (checkRisk earlier address) = hashAddress address mod 30 \<and>
       0 \<le> rc_riskScore (checkRisk earlier address) \<and>
       rc_riskScore (checkRisk earlier address) < 30"
    using checkRisk_clean [of earlier address] by simp
  from same fields clean show ?thesis by (intro conjI)
qed

theorem checkRisk_repeatable_witness:
  "rc_status (checkRisk 1000 sampleWallet) = Clean \<and>
   rc_status (checkRisk 2000 sampleWallet) = Clean \<and>
   rc_riskScore (checkRisk 1000 sampleWallet) = 9 \<and>
   rc_riskScore (checkRisk 2000 sampleWallet) = 9"
proof -
  note repeatable = checkRisk_repeatable [of 2000 sampleWallet 1000]
  have clean: "rc_status (checkRisk 1000 sampleWallet) = Clean"
    by (simp add: checkRisk_def truthy_def MOCK_SANCTIONED_ADDRESSES_def
        MOCK_FLAGGED_ADDRESSES_def sampleWallet_def)
  have hash: "hashAddress sampleWallet = 455733549"
    by (simp add: hashAddress_def hashStep_def toInt32_def sampleWallet_def js_def)
  have score: "rc_riskScore (checkRisk 1000 sampleWallet) = 9"
    using repeatable clean by (simp add: hash)
  have status: "rc_status (checkRisk 2000 sampleWallet) = Clean"
    using repeatable clean by simp
  have again: "rc_riskScore (checkRisk 2000 sampleWallet) = 9"
    using repeatable score by simp
  from clean status score again show ?thesis by (intro conjI)
qed

section \<open>The clustering detector\<close>

lemma total_countTransfer:
  "ic_totalInteractions (countTransfer w f t st) =
     ic_totalInteractions st + (if isCounterpartyInteraction w (f, t) then 1 else 0)"
  by (simp add: countTransfer_def isCounterpartyInteraction_def Let_def)

lemma total_fold_native:
  "ic_totalInteractions
     (fold (\<lambda>transfer. countTransfer w (nt_fromUserAccount transfer) (nt_toUserAccount transfer)) xs st) =
   ic_totalInteractions st +
   length (filter (isCounterpartyInteraction w)
             (map (\<lambda>transfer. (nt_fromUserAccount transfer, nt_toUserAccount transfer)) xs))"
  by (induction xs arbitrary: st) (simp_all add: total_countTransfer)

lemma total_fold_token:
  "ic_totalInteractions
     (fold (\<lambda>transfer. countTransfer w (tt_fromUserAccount transfer) (tt_toUserAccount transfer)) xs st) =
   ic_totalInteractions st +
   length (filter (isCounterpartyInteraction w)
             (map (\<lambda>transfer. (tt_fromUserAccount transfer, tt_toUserAccount transfer)) xs))"
  by (induction xs arbitrary: st) (simp_all add: total_countTransfer)

lemma total_countTransaction:
  "ic_totalInteractions (countTransaction w tx st) =
   ic_totalInteractions st + length (filter (isCounterpartyInteraction w) (transferEnds tx))"
  by (simp add: countTransaction_def total_fold_native total_fold_token transferEnds_def)

lemma total_fold_transactions:
  "ic_totalInteractions (fold (countTransaction w) txs st) =
   ic_totalInteractions st + counterpartyInteractions txs w"
  by (induction txs arbitrary: st)
     (simp_all add: counterpartyInteractions_def total_countTransaction)

text \<open>The counter of the detector is the number of counterparty interactions.\<close>

lemma countInteractions_total:
  "ic_totalInteractions (countInteractions txs w) = counterpartyInteractions txs w"
  by (simp add: countInteractions_def total_fold_transactions)

text \<open>
  Claim C7. With fewer than 5 counterparty interactions, whatever their distribution,
  the detector answers pattern \<open>none\<close>, not detected, contribution 0.
\<close>

theorem clustering_insufficient_data:
  "counterpartyInteractions transactions walletAddress < 5 \<Longrightarrow>
   cl_pattern (detectClustering transactions walletAddress) = none \<and>
   cl_detected (detectClustering transactions walletAddress) = False \<and>
   cl_riskContribution (detectClustering transactions walletAddress) = 0"
  by (simp add: detectClustering_def Let_def countInteractions_total ANALYSIS_CONFIG_def)

theorem clustering_insufficient_data_witness:
  "counterpartyInteractions [withdrawalTx, krakenTx] sampleWallet = 2 \<and>
   cl_pattern (detectClustering [withdrawalTx, krakenTx] sampleWallet) = none \<and>
   cl_detected (detectClustering [withdrawalTx, krakenTx] sampleWallet) = False \<and>
   cl_riskContribution (detectClustering [withdrawalTx, krakenTx] sampleWallet) = 0"
proof -
  have count: "counterpartyInteractions [withdrawalTx, krakenTx] sampleWallet = 2"
    by (simp add: counterpartyInteractions_def transferEnds_def isCounterpartyInteraction_def
        otherAddress_def truthy_def withdrawalTx_def krakenTx_def nativeTx_def native_def
        sampleWallet_def binanceWallet_def krakenWallet_def)
  then have few: "counterpartyInteractions [withdrawalTx, krakenTx] sampleWallet < 5"
    by simp
  from count clustering_insufficient_data [OF few] show ?thesis by (rule conjI)
qed

lemma detectPattern_not_wash: "detectPattern sortedAddresses n \<noteq> wash_trading"
  by (simp add: detectPattern_def split: list.split)

lemma detectPattern_single:
  "af_percentage firstAddress \<ge> 50 \<longrightarrow>
   detectPattern (firstAddress # rest) n = single_counterparty"
  by (simp add: detectPattern_def)

lemma detected_iff_pattern:
  "cl_detected (detectClustering transactions walletAddress) =
   (cl_pattern (detectClustering transactions walletAddress) \<noteq> none)"
  by (cases "sortAddresses (ic_addressCounts (countInteractions transactions walletAddress))
               (ic_totalInteractions (countInteractions transactions walletAddress))")
     (auto simp add: detectClustering_def Let_def ANALYSIS_CONFIG_def detectPattern_def)

lemma clusterRisk_values:
  "p \<noteq> wash_trading \<Longrightarrow> d = (p \<noteq> none) \<Longrightarrow> clusterRisk d p \<in> {0, 10, 14, 20}"
  by (cases p) (simp_all add: clusterRisk_def POINT_DEDUCTIONS_def)

lemma clustering_risk_set:
  "cl_riskContribution (detectClustering transactions walletAddress) \<in> {0, 10, 14, 20}"
proof (cases "ic_totalInteractions (countInteractions transactions walletAddress) < 5")
  case True
  then show ?thesis
    by (simp add: detectClustering_def Let_def ANALYSIS_CONFIG_def)
next
  case False
  let ?st = "countInteractions transactions walletAddress"
  let ?sorted = "sortAddresses (ic_addressCounts ?st) (ic_totalInteractions ?st)"
  let ?p = "detectPattern ?sorted (ic_totalInteractions ?st)"
  have d: "cl_detected (detectClustering transactions walletAddress) = (?p \<noteq> none)"
    using False detected_iff_pattern [of transactions walletAddress]
    by (simp add: detectClustering_def Let_def ANALYSIS_CONFIG_def)
  have "cl_riskContribution (detectClustering transactions walletAddress) =
        clusterRisk (cl_detected (detectClustering transactions walletAddress)) ?p"
    using False by (simp add: detectClustering_def Let_def ANALYSIS_CONFIG_def)
  then show ?thesis
    using clusterRisk_values [OF detectPattern_not_wash d] by simp
qed

text \<open>
  Claim C10. The contribution of the clustering detector is 0, 10, 14 or 20. The
  classifier never answers \<open>wash_trading\<close>; it answers \<open>single_counterparty\<close> whenever
  the share of the first address is at least 50; and the detector reports a detection
  exactly when the pattern is not \<open>none\<close>, so the fallback of 8 points is never taken.
\<close>

theorem clustering_risk_values:
  "cl_riskContribution (detectClustering transactions walletAddress) \<in> {0, 10, 14, 20} \<and>
   detectPattern sortedAddresses totalInteractions \<noteq> wash_trading \<and>
   (af_percentage firstAddress \<ge> 50 \<longrightarrow>
      detectPattern (firstAddress # rest) totalInteractions = single_counterparty) \<and>
   cl_detected (detectClustering transactions walletAddress) =
     (cl_pattern (detectClustering transactions walletAddress) \<noteq> none)"
  using clustering_risk_set [of transactions walletAddress]
        detectPattern_not_wash [of sortedAddresses totalInteractions]
        detectPattern_single [of firstAddress rest totalInteractions]
        detected_iff_pattern [of transactions walletAddress]
  by (intro conjI)

theorem clustering_risk_values_witness:
  "cl_pattern (detectClustering clusterSample sampleWallet) = single_counterparty \<and>
   cl_detected (detectClustering clusterSample sampleWallet) \<and>
   cl_riskContribution (detectClustering clusterSample sampleWallet) \<in> {0, 10, 14, 20}"
proof -
  note risk =
    clustering_risk_values
      [of clusterSample sampleWallet "[]" 0
          "\<lparr>af_address = friendWallet, af_count = 3, af_percentage = 60\<rparr>" "[]"]
  have pattern: "cl_pattern (detectClustering clusterSample sampleWallet) = single_counterparty"
    by code_simp
  have detected: "cl_detected (detectClustering clusterSample sampleWallet)"
    using risk [THEN conjunct2, THEN conjunct2, THEN conjunct2] pattern by simp
  from pattern detected risk [THEN conjunct1] show ?thesis by (intro conjI)
qed

end
